theory Spec2Isabelle
  imports Complex_Main
begin


section \<open>Python values shared by the modules\<close>

text \<open>
  The exceptions the modelled code can raise (\<open>ValidationError\<close> is the one of the
  schema library, raised when a required field is missing). All of them are subclasses
  of Python's \<^verbatim>\<open>Exception\<close>, so a clause \<^verbatim>\<open>except Exception\<close> catches every one of
  them.
\<close>

datatype py_error =
    KeyError | IndexError | AttributeError | TypeError | ValueError | UnboundLocalError
  | ValidationError

text \<open>
  The email of the state is a dictionary; a field is \<open>None\<close> when the key is absent.
\<close>

record email_data =
  em_id :: "string option"
  em_subject :: "string option"
  em_from_email :: "string option"
  em_to_email :: "string option"
  em_page_content :: "string option"

text \<open>
  The values held in dictionaries that the code writes or reads: a string, a boolean or
  an email.
\<close>

datatype jvalue = JStr string | JBool bool | JEmail email_data

text \<open>
  A tool call is a dictionary with the keys \<^verbatim>\<open>id\<close>, \<^verbatim>\<open>name\<close> and \<^verbatim>\<open>args\<close>; a field is
  \<open>None\<close> when the key is absent (\<^verbatim>\<open>tc["name"]\<close> then raises KeyError, while
  \<^verbatim>\<open>tc.get("name", "")\<close> gives the default).
\<close>

record tool_call =
  tc_id :: "string option"
  tc_name :: "string option"
  tc_args :: "(string \<times> jvalue) list option"

text \<open>
  A message of the conversation is either a plain dictionary or an object. The class
  decides \<^verbatim>\<open>isinstance\<close>; \<open>AIMessage\<close> stands for every other subclass of
  \<^verbatim>\<open>BaseMessage\<close>, \<open>OtherObject\<close> for an object outside that hierarchy. A field is
  \<open>None\<close> when the key (of a dictionary) or the attribute (of an object) is absent.
\<close>

datatype msg_class = DictMessage | ToolMessage | HumanMessage | AIMessage | OtherObject

record message =
  msg_class :: msg_class
  msg_role :: "string option"
  msg_type :: "string option"
  msg_name :: "string option"
  msg_content :: "string option"
  msg_id :: "string option"
  msg_tool_call_id :: "string option"
  msg_tool_calls :: "tool_call list option"

record respond_to =
  response :: string

text \<open>
  The graph state is a dictionary with the keys \<^verbatim>\<open>email\<close>, \<^verbatim>\<open>triage\<close> and
  \<^verbatim>\<open>messages\<close>; \<open>None\<close> is an absent key.
\<close>

record state =
  st_email :: "email_data option"
  st_triage :: "respond_to option"
  st_messages :: "message list option"

text \<open>\<^verbatim>\<open>d[key]\<close> on a dictionary: KeyError when the key is absent.\<close>

definition getitem :: "'a option \<Rightarrow> py_error + 'a" where
  "getitem v = (case v of None \<Rightarrow> Inl KeyError | Some x \<Rightarrow> Inr x)"

text \<open>\<^verbatim>\<open>d.get(key, default)\<close>.\<close>

definition get_default :: "'a option \<Rightarrow> 'a \<Rightarrow> 'a" where
  "get_default v d = (case v of None \<Rightarrow> d | Some x \<Rightarrow> x)"

text \<open>\<^verbatim>\<open>xs[-1]\<close> and \<^verbatim>\<open>xs[0]\<close> on a list: IndexError when it is empty.\<close>

definition last_item :: "'a list \<Rightarrow> py_error + 'a" where
  "last_item xs = (if xs = [] then Inl IndexError else Inr (last xs))"

definition first_item :: "'a list \<Rightarrow> py_error + 'a" where
  "first_item xs = (case xs of [] \<Rightarrow> Inl IndexError | x # _ \<Rightarrow> Inr x)"

text \<open>
  \<^verbatim>\<open>m.tool_calls\<close>, attribute access: a dictionary has no such attribute, and an object
  has it only when the field is there.
\<close>

definition attr_tool_calls :: "message \<Rightarrow> py_error + tool_call list" where
  "attr_tool_calls m =
     (if msg_class m = DictMessage then Inl AttributeError
      else case msg_tool_calls m of None \<Rightarrow> Inl AttributeError | Some tcs \<Rightarrow> Inr tcs)"

text \<open>\<^verbatim>\<open>isinstance(m, (ToolMessage, HumanMessage, BaseMessage))\<close>.\<close>

definition is_base_message :: "message \<Rightarrow> bool" where
  "is_base_message m = (msg_class m \<in> {ToolMessage, HumanMessage, AIMessage})"

text \<open>Sequencing of fallible steps: the first exception ends the computation.\<close>

definition bind_err :: "py_error + 'a \<Rightarrow> ('a \<Rightarrow> py_error + 'b) \<Rightarrow> py_error + 'b" where
  "bind_err r f = (case r of Inl e \<Rightarrow> Inl e | Inr x \<Rightarrow> f x)"

text \<open>\<^verbatim>\<open>try: ... except Exception: return fallback\<close>.\<close>

definition except_return :: "py_error + 'a \<Rightarrow> 'a \<Rightarrow> 'a" where
  "except_return r fallback = (case r of Inl e \<Rightarrow> fallback | Inr x \<Rightarrow> x)"

section \<open>Routing functions of \<^verbatim>\<open>eaia/main/graph-consolidation.py\<close>\<close>

definition route_after_triage_body :: "state \<Rightarrow> py_error + string" where
  "route_after_triage_body s =
     bind_err (getitem (st_triage s)) (\<lambda>t.
       if response t = ''email'' then Inr ''draft_response''
       else if response t = ''no'' then Inr ''mark_as_read_node''
       else if response t = ''notify'' then Inr ''notify''
       else if response t = ''question'' then Inr ''draft_response''
       else Inr ''notify'')"

definition route_after_triage :: "state \<Rightarrow> string" where
  "route_after_triage s = except_return (route_after_triage_body s) ''notify''"

definition take_action_body :: "state \<Rightarrow> py_error + string" where
  "take_action_body s =
     bind_err (getitem (st_messages s)) (\<lambda>messages.
     bind_err (last_item messages) (\<lambda>prediction.
     bind_err (attr_tool_calls prediction) (\<lambda>tool_calls.
       if length tool_calls \<noteq> 1 then Inl ValueError
       else
         bind_err (first_item tool_calls) (\<lambda>tool_call.
         bind_err (getitem (tc_name tool_call)) (\<lambda>tool_name.
           if tool_name = ''Question'' then Inr ''send_message''
           else if tool_name = ''ResponseEmailDraft'' then Inr ''rewrite''
           else if tool_name = ''Ignore'' then Inr ''mark_as_read_node''
           else if tool_name = ''MeetingAssistant'' then Inr ''find_meeting_time''
           else if tool_name = ''SendCalendarInvite'' then Inr ''send_cal_invite''
           else if tool_name \<in> set [''ManageMemory'', ''SearchMemory'']
             then Inr ''process_memory_node''
           else Inr ''bad_tool_name'')))))"

definition take_action :: "state \<Rightarrow> string" where
  "take_action s = except_return (take_action_body s) ''bad_tool_name''"

definition enter_after_human_body :: "state \<Rightarrow> py_error + string" where
  "enter_after_human_body s =
     (let messages = get_default (st_messages s) [] in
      if length messages = 0 then
        bind_err (getitem (st_triage s)) (\<lambda>t.
          if response t = ''notify'' then Inr ''mark_as_read_node''
          else Inl ValueError)
      else
        bind_err (last_item messages) (\<lambda>last_message.
          if is_base_message last_message then Inr ''draft_response''
          else
            bind_err (attr_tool_calls last_message) (\<lambda>tool_calls.
            bind_err (first_item tool_calls) (\<lambda>execute.
            bind_err (getitem (tc_name execute)) (\<lambda>name.
              if name = ''ResponseEmailDraft'' then Inr ''send_email_node''
              else if name = ''SendCalendarInvite'' then Inr ''send_cal_invite_node''
              else if name = ''Ignore'' then Inr ''mark_as_read_node''
              else if name = ''Question'' then Inr ''draft_response''
              else Inr ''draft_response'')))))"

definition enter_after_human :: "state \<Rightarrow> string" where
  "enter_after_human s = except_return (enter_after_human_body s) ''draft_response''"

section \<open>The graph built by \<^verbatim>\<open>build_memory_enhanced_graph\<close>\<close>

text \<open>
  The three routing functions passed to \<^verbatim>\<open>add_conditional_edges\<close>. A conditional edge
  carries its routing function; the nodes it can lead to are the labels of the
  function's declared \<^verbatim>\<open>Literal[...]\<close> return type.
\<close>

datatype router = Route_after_triage | Take_action | Enter_after_human

fun router_fn :: "router \<Rightarrow> state \<Rightarrow> string" where
  "router_fn Route_after_triage = route_after_triage"
| "router_fn Take_action = take_action"
| "router_fn Enter_after_human = enter_after_human"

fun router_ends :: "router \<Rightarrow> string list" where
  "router_ends Route_after_triage = [''draft_response'', ''mark_as_read_node'', ''notify'']"
| "router_ends Take_action =
     [''send_message'', ''rewrite'', ''mark_as_read_node'', ''find_meeting_time'',
      ''send_cal_invite'', ''process_memory_node'', ''bad_tool_name'']"
| "router_ends Enter_after_human =
     [''mark_as_read_node'', ''draft_response'', ''send_email_node'', ''send_cal_invite_node'']"

record state_graph =
  nodes :: "string list"
  edges :: "(string \<times> string) list"
  branches :: "(string \<times> router) list"
  entry_point :: "string option"

definition END :: string where
  "END = ''__end__''"

definition StateGraph :: state_graph where
  "StateGraph = \<lparr>nodes = [], edges = [], branches = [], entry_point = None\<rparr>"

definition add_node :: "string \<Rightarrow> state_graph \<Rightarrow> state_graph" where
  "add_node name g = g\<lparr>nodes := nodes g @ [name]\<rparr>"

definition add_edge :: "string \<Rightarrow> string \<Rightarrow> state_graph \<Rightarrow> state_graph" where
  "add_edge start_key end_key g = g\<lparr>edges := edges g @ [(start_key, end_key)]\<rparr>"

definition add_conditional_edges :: "string \<Rightarrow> router \<Rightarrow> state_graph \<Rightarrow> state_graph" where
  "add_conditional_edges source path g = g\<lparr>branches := branches g @ [(source, path)]\<rparr>"

definition set_entry_point :: "string \<Rightarrow> state_graph \<Rightarrow> state_graph" where
  "set_entry_point key g = g\<lparr>entry_point := Some key\<rparr>"

text \<open>The builder calls of \<^verbatim>\<open>build_memory_enhanced_graph\<close>, in the order of the source.\<close>

definition build_memory_enhanced_graph :: state_graph where
  "build_memory_enhanced_graph =
     foldl (\<lambda>graph_builder call. call graph_builder) StateGraph
       [add_node ''human_node'',
        add_node ''triage_input'',
        add_node ''draft_response'',
        add_node ''send_message'',
        add_node ''rewrite'',
        add_node ''mark_as_read_node'',
        add_node ''send_email_draft'',
        add_node ''send_email_node'',
        add_node ''bad_tool_name'',
        add_node ''notify'',
        add_node ''send_cal_invite_node'',
        add_node ''send_cal_invite'',
        add_node ''process_memory_node'',
        add_conditional_edges ''triage_input'' Route_after_triage,
        set_entry_point ''triage_input'',
        add_conditional_edges ''draft_response'' Take_action,
        add_edge ''send_message'' ''human_node'',
        add_edge ''send_cal_invite'' ''human_node'',
        add_node ''find_meeting_time'',
        add_edge ''find_meeting_time'' ''draft_response'',
        add_edge ''bad_tool_name'' ''draft_response'',
        add_edge ''send_cal_invite_node'' ''draft_response'',
        add_edge ''send_email_node'' ''mark_as_read_node'',
        add_edge ''rewrite'' ''send_email_draft'',
        add_edge ''send_email_draft'' ''human_node'',
        add_edge ''mark_as_read_node'' END,
        add_edge ''notify'' ''human_node'',
        add_edge ''process_memory_node'' ''draft_response'',
        add_conditional_edges ''human_node'' Enter_after_human]"

text \<open>
  The nodes the compiled graph can move to from node \<open>n\<close>: the targets of its plain edges
  and the declared labels of its conditional edges.
\<close>

definition successors :: "state_graph \<Rightarrow> string \<Rightarrow> string list" where
  "successors g n =
     map snd (filter (\<lambda>e. fst e = n) (edges g)) @
     concat (map (\<lambda>b. router_ends (snd b)) (filter (\<lambda>b. fst b = n) (branches g)))"

text \<open>
  The nodes a run moves to from node \<open>n\<close> when the state left by \<open>n\<close> is \<open>s\<close>: a
  conditional edge goes where its routing function says.
\<close>

definition next_nodes :: "state_graph \<Rightarrow> state \<Rightarrow> string \<Rightarrow> string list" where
  "next_nodes g s n =
     map snd (filter (\<lambda>e. fst e = n) (edges g)) @
     map (\<lambda>b. router_fn (snd b) s) (filter (\<lambda>b. fst b = n) (branches g))"

text \<open>A path of the graph: every node is followed by one of its successors.\<close>

fun is_path :: "state_graph \<Rightarrow> string list \<Rightarrow> bool" where
  "is_path g [] = True"
| "is_path g [n] = True"
| "is_path g (a # b # rest) = (b \<in> set (successors g a) \<and> is_path g (b # rest))"

text \<open>The nodes that send an email or a calendar invite.\<close>

definition sending_nodes :: "string list" where
  "sending_nodes = [''send_email_node'', ''send_cal_invite_node'']"

text \<open>
  The nodes that suspend the run for the human (\<^verbatim>\<open>interrupt\<close>): the four functions the
  graph imports from \<^verbatim>\<open>eaia.main.human_inbox\<close>.
\<close>

definition interrupt_nodes :: "string list" where
  "interrupt_nodes = [''send_message'', ''send_email_draft'', ''notify'', ''send_cal_invite'']"

subsection \<open>Vocabulary of the statements about \<^verbatim>\<open>take_action\<close>\<close>


text \<open>
  The same for the messages whose tool calls can be read as \<^verbatim>\<open>message.tool_calls\<close>: the
  last message is an object with that attribute.
\<close>

definition exposes_single_tool_call :: "state \<Rightarrow> tool_call option" where
  "exposes_single_tool_call s =
     (case st_messages s of
        None \<Rightarrow> None
      | Some ms \<Rightarrow>
          if ms = [] then None
          else (case attr_tool_calls (last ms) of
                  Inr [tc] \<Rightarrow> Some tc
                | _ \<Rightarrow> None))"

definition recognised_tools :: "string list" where
  "recognised_tools =
     [''Question'', ''ResponseEmailDraft'', ''Ignore'', ''MeetingAssistant'',
      ''SendCalendarInvite'', ''ManageMemory'', ''SearchMemory'']"

section \<open>The long-term memory store\<close>

text \<open>
  The store is the key-value store of the orchestration library: items live under a
  namespace (a tuple of strings) and a key, and hold a dictionary. The three calls the
  code makes are modelled by what they are documented to do: \<^verbatim>\<open>aget\<close> returns the item
  or \<^verbatim>\<open>None\<close>, \<^verbatim>\<open>aput\<close> writes (replacing an item with the same namespace and key),
  \<^verbatim>\<open>asearch\<close> returns at most \<^verbatim>\<open>limit\<close> items below the namespace prefix, in the order
  of the store's own similarity ranking. The ranking is a field of the store, as it is
  not part of this repository. Every call is appended to \<open>calls\<close>, the trace of the
  store's use.
\<close>

type_synonym namespace = "string list"

type_synonym svalue = "(string \<times> jvalue) list"

record item =
  item_namespace :: namespace
  item_key :: string
  item_value :: svalue

datatype store_call =
    AGet namespace string
  | APut namespace string svalue
  | ASearch namespace string nat

record store =
  items :: "item list"
  ranking :: "string \<Rightarrow> item list \<Rightarrow> item list"
  calls :: "store_call list"

definition at_key :: "namespace \<Rightarrow> string \<Rightarrow> item \<Rightarrow> bool" where
  "at_key ns key it = (item_namespace it = ns \<and> item_key it = key)"

definition aget :: "namespace \<Rightarrow> string \<Rightarrow> store \<Rightarrow> item option \<times> store" where
  "aget ns key st = (find (at_key ns key) (items st), st\<lparr>calls := calls st @ [AGet ns key]\<rparr>)"

definition aput :: "namespace \<Rightarrow> string \<Rightarrow> svalue \<Rightarrow> store \<Rightarrow> store" where
  "aput ns key v st =
     st\<lparr>items := filter (\<lambda>it. \<not> at_key ns key it) (items st)
                  @ [\<lparr>item_namespace = ns, item_key = key, item_value = v\<rparr>],
        calls := calls st @ [APut ns key v]\<rparr>"

definition below :: "namespace \<Rightarrow> item \<Rightarrow> bool" where
  "below ns it = (take (length ns) (item_namespace it) = ns)"

definition asearch :: "namespace \<Rightarrow> string \<Rightarrow> nat \<Rightarrow> store \<Rightarrow> item list \<times> store" where
  "asearch ns query limit st =
     (take limit (ranking st query (filter (below ns) (items st))),
      st\<lparr>calls := calls st @ [ASearch ns query limit]\<rparr>)"

text \<open>The calls made on the store between two of its states, and the writes among calls.\<close>

definition calls_since :: "store \<Rightarrow> store \<Rightarrow> store_call list" where
  "calls_since st st' = drop (length (calls st)) (calls st')"

fun is_put :: "store_call \<Rightarrow> bool" where
  "is_put (APut ns key v) = True"
| "is_put (AGet ns key) = False"
| "is_put (ASearch ns query limit) = False"

fun call_namespace :: "store_call \<Rightarrow> namespace" where
  "call_namespace (APut ns key v) = ns"
| "call_namespace (AGet ns key) = ns"
| "call_namespace (ASearch ns query limit) = ns"

section \<open>Run configuration\<close>

text \<open>
  The run configuration is a dictionary whose key \<^verbatim>\<open>configurable\<close> holds a dictionary
  with the optional keys \<^verbatim>\<open>user_id\<close>, \<^verbatim>\<open>assistant_id\<close>, \<^verbatim>\<open>model\<close> and \<^verbatim>\<open>memory\<close>.
\<close>

record configurable =
  cf_user_id :: "string option"
  cf_assistant_id :: "string option"
  cf_model :: "string option"
  cf_memory :: "bool option"

record config =
  cfg_configurable :: "configurable option"

definition no_configurable :: configurable where
  "no_configurable =
     \<lparr>cf_user_id = None, cf_assistant_id = None, cf_model = None, cf_memory = None\<rparr>"

section \<open>\<^verbatim>\<open>eaia/memory-module.py\<close>\<close>

record contact_info =
  ci_name :: string
  ci_email :: "string option"
  ci_company :: "string option"
  ci_role :: "string option"
  ci_relationship :: "string option"

record email_preference =
  ep_type :: string
  ep_description :: string
  ep_confidence :: rat

record conversation_summary =
  cs_subject :: string
  cs_participants :: "string list"
  cs_key_points :: "string list"
  cs_action_items :: "string list option"
  cs_follow_up_needed :: bool

text \<open>
  What the module takes from its libraries, from the language model and from the
  Python runtime: the three structured extractions and the background memory manager
  (each called with the messages; the call returns or raises), \<^verbatim>\<open>str.lower()\<close> (a
  \<open>char\<close> is a byte here, so lowercasing by code point is not a function of this
  theory), the text of a dictionary, and the fresh identifiers (\<open>lib_uuid4 n\<close> is the
  result of the \<open>n\<close>-th call of \<^verbatim>\<open>uuid.uuid4()\<close> within one function call).
\<close>

record library =
  lib_summary :: "message list \<Rightarrow> py_error + conversation_summary"
  lib_contacts :: "message list \<Rightarrow> py_error + contact_info list"
  lib_preferences :: "message list \<Rightarrow> py_error + email_preference list"
  lib_manager :: "message list \<Rightarrow> py_error + string list"
  lib_lower :: "string \<Rightarrow> string"
  lib_repr :: "email_data \<Rightarrow> string"
  lib_uuid4 :: "nat \<Rightarrow> string"

text \<open>
  \<^verbatim>\<open>contact.model_dump_json()\<close> and \<^verbatim>\<open>preference.model_dump_json()\<close>. The classes
  \<^verbatim>\<open>ContactInfo\<close> and \<^verbatim>\<open>EmailPreference\<close> derive from the \<^verbatim>\<open>BaseModel\<close> that the module
  imports from \<^verbatim>\<open>langchain_core.pydantic_v1\<close>. That base class serialises with
  \<^verbatim>\<open>json()\<close> and has no method \<^verbatim>\<open>model_dump_json\<close>: looking the method up raises
  AttributeError.
\<close>

definition model_dump_json :: "'a \<Rightarrow> py_error + string" where
  "model_dump_json obj = Inl AttributeError"

text \<open>
  \<^verbatim>\<open>str.replace(' ', '_')\<close>; a space is one byte in every encoding of the text, so the
  replacement by bytes is the replacement by characters.
\<close>

definition replace_char :: "char \<Rightarrow> char \<Rightarrow> string \<Rightarrow> string" where
  "replace_char old new s = map (\<lambda>c. if c = old then new else c) s"

text \<open>\<^verbatim>\<open>sep.join(xs)\<close>.\<close>

fun join :: "string \<Rightarrow> string list \<Rightarrow> string" where
  "join sep [] = []"
| "join sep [x] = x"
| "join sep (x # y # rest) = x @ sep @ join sep (y # rest)"

text \<open>\<^verbatim>\<open>str(v)\<close>, as an f-string renders a value.\<close>

definition str_bool :: "bool \<Rightarrow> string" where
  "str_bool b = (if b then ''True'' else ''False'')"

definition py_str :: "library \<Rightarrow> jvalue \<Rightarrow> string" where
  "py_str lib v = (case v of JStr s \<Rightarrow> s | JBool b \<Rightarrow> str_bool b | JEmail e \<Rightarrow> lib_repr lib e)"

definition get_memory_namespace :: "config \<Rightarrow> string \<Rightarrow> namespace" where
  "get_memory_namespace config store_type =
     (let user_id =
            get_default (cf_user_id (get_default (cfg_configurable config) no_configurable))
              ''default_user'';
          assistant_id =
            get_default (cf_assistant_id (get_default (cfg_configurable config) no_configurable))
              ''default''
      in [assistant_id, store_type, user_id])"

text \<open>
  \<^verbatim>\<open>convert_to_langchain_messages\<close>: dictionaries become message objects by their role
  or type, any other dictionary is dropped, objects are kept. The tool message is built
  as \<^verbatim>\<open>ToolMessage(content=...)\<close>, without the field \<^verbatim>\<open>tool_call_id\<close> that the class
  requires, so the constructor raises and the loop ends there.
\<close>

definition langchain_message :: "msg_class \<Rightarrow> string option \<Rightarrow> message" where
  "langchain_message cls content =
     \<lparr>msg_class = cls, msg_role = None, msg_type = None, msg_name = None,
      msg_content = Some (get_default content []), msg_id = None, msg_tool_call_id = None,
      msg_tool_calls = None\<rparr>"

definition convert_message :: "message \<Rightarrow> py_error + message list" where
  "convert_message msg =
     (if msg_class msg = DictMessage then
        (if msg_role msg = Some ''user''
           then Inr [langchain_message HumanMessage (msg_content msg)]
         else if msg_role msg = Some ''assistant''
           then Inr [langchain_message AIMessage (msg_content msg)]
         else if msg_type msg = Some ''tool''
           then Inl ValidationError
         else Inr [])
      else Inr [msg])"

fun convert_to_langchain_messages :: "message list \<Rightarrow> py_error + message list" where
  "convert_to_langchain_messages [] = Inr []"
| "convert_to_langchain_messages (msg # rest) =
     (case convert_message msg of
        Inl e \<Rightarrow> Inl e
      | Inr converted \<Rightarrow>
          (case convert_to_langchain_messages rest of
             Inl e \<Rightarrow> Inl e
           | Inr result \<Rightarrow> Inr (converted @ result)))"

text \<open>
  The three loops of \<^verbatim>\<open>process_email_for_memory\<close> that write to the store. In the
  first two the key is computed, then the value, whose serialisation raises, and only
  then would \<^verbatim>\<open>aput\<close> be called.
\<close>

fun store_contacts ::
  "library \<Rightarrow> namespace \<Rightarrow> contact_info list \<Rightarrow> store \<Rightarrow> (py_error + unit) \<times> store" where
  "store_contacts lib contacts_namespace [] st = (Inr (), st)"
| "store_contacts lib contacts_namespace (contact # rest) st =
     (let contact_key =
            ''contact_'' @ replace_char (CHR '' '') (CHR ''_'') (lib_lower lib (ci_name contact))
      in case model_dump_json contact of
           Inl e \<Rightarrow> (Inl e, st)
         | Inr json \<Rightarrow>
             store_contacts lib contacts_namespace rest
               (aput contacts_namespace contact_key [(''content'', JStr json)] st))"

fun store_preferences ::
  "library \<Rightarrow> namespace \<Rightarrow> email_preference list \<Rightarrow> store \<Rightarrow> (py_error + unit) \<times> store"
where
  "store_preferences lib preferences_namespace [] st = (Inr (), st)"
| "store_preferences lib preferences_namespace (preference # rest) st =
     (let pref_key =
            ''preference_''
            @ replace_char (CHR '' '') (CHR ''_'') (lib_lower lib (ep_type preference))
      in case model_dump_json preference of
           Inl e \<Rightarrow> (Inl e, st)
         | Inr json \<Rightarrow>
             store_preferences lib preferences_namespace rest
               (aput preferences_namespace pref_key [(''content'', JStr json)] st))"

fun store_memories :: "library \<Rightarrow> namespace \<Rightarrow> nat \<Rightarrow> string list \<Rightarrow> store \<Rightarrow> store" where
  "store_memories lib memories_namespace n [] st = st"
| "store_memories lib memories_namespace n (memory # rest) st =
     store_memories lib memories_namespace (Suc n) rest
       (aput memories_namespace (lib_uuid4 lib n) [(''content'', JStr memory)] st)"

definition summary_content :: "string \<Rightarrow> conversation_summary \<Rightarrow> string" where
  "summary_content subject conversation_summary =
     ''Email thread: '' @ subject @ [CHR 0x0A]
     @ ''Key points: '' @ join '', '' (cs_key_points conversation_summary) @ [CHR 0x0A]
     @ (case cs_action_items conversation_summary of
          None \<Rightarrow> []
        | Some action_items \<Rightarrow>
            if action_items = [] then []
            else ''Action items: '' @ join '', '' action_items @ [CHR 0x0A])
     @ ''Follow-up needed: '' @ str_bool (cs_follow_up_needed conversation_summary)"

text \<open>
  \<^verbatim>\<open>process_email_for_memory\<close>. It has no exception handler: the first exception ends
  it, and what was written before stays in the store.
\<close>

definition process_email_for_memory ::
  "library \<Rightarrow> email_data \<Rightarrow> message list \<Rightarrow> config \<Rightarrow> store \<Rightarrow> (py_error + unit) \<times> store"
where
  "process_email_for_memory lib email_data messages config st =
     (case
        bind_err (lib_summary lib messages) (\<lambda>conversation_summary.
        bind_err (lib_contacts lib messages) (\<lambda>contacts.
        bind_err (lib_preferences lib messages) (\<lambda>preferences.
        bind_err (getitem (em_subject email_data)) (\<lambda>subject.
          Inr (conversation_summary, contacts, preferences, subject))))) of
        Inl e \<Rightarrow> (Inl e, st)
      | Inr (conversation_summary, contacts, preferences, subject) \<Rightarrow>
          (let memories_namespace = get_memory_namespace config ''memories'';
               st1 = aput memories_namespace (lib_uuid4 lib 0)
                       [(''content'', JStr (summary_content subject conversation_summary))] st
           in case (if contacts \<noteq> []
                    then store_contacts lib (get_memory_namespace config ''contacts'')
                           contacts st1
                    else (Inr (), st1)) of
                (Inl e, st2) \<Rightarrow> (Inl e, st2)
              | (Inr stored, st2) \<Rightarrow>
                  (case (if preferences \<noteq> []
                         then store_preferences lib
                                (get_memory_namespace config ''preferences'') preferences st2
                         else (Inr (), st2)) of
                     (Inl e, st3) \<Rightarrow> (Inl e, st3)
                   | (Inr stored, st3) \<Rightarrow>
                       (case bind_err (convert_to_langchain_messages messages)
                               (lib_manager lib) of
                          Inl e \<Rightarrow> (Inl e, st3)
                        | Inr memories \<Rightarrow>
                            (Inr (), store_memories lib memories_namespace 1 memories st3)))))"

text \<open>The three formatting loops of \<^verbatim>\<open>retrieve_relevant_memories\<close>.\<close>

definition content_line :: "library \<Rightarrow> string \<Rightarrow> item \<Rightarrow> string" where
  "content_line lib label it =
     label @ py_str lib (get_default (map_of (item_value it) ''content'') (JStr []))"

fun append_lines :: "library \<Rightarrow> string \<Rightarrow> item list \<Rightarrow> string list \<Rightarrow> string list" where
  "append_lines lib label [] results = results"
| "append_lines lib label (it # rest) results =
     append_lines lib label rest (results @ [content_line lib label it])"

definition retrieve_relevant_memories ::
  "library \<Rightarrow> string \<Rightarrow> config \<Rightarrow> store \<Rightarrow> nat \<Rightarrow> string list \<times> store" where
  "retrieve_relevant_memories lib query config st limit =
     (let memories_namespace = get_memory_namespace config ''memories'';
          contacts_namespace = get_memory_namespace config ''contacts'';
          preferences_namespace = get_memory_namespace config ''preferences'';
          (memories, st1) = asearch memories_namespace query limit st;
          (contacts, st2) = asearch contacts_namespace query limit st1;
          (preferences, st3) = asearch preferences_namespace query limit st2;
          results = [];
          results = (if memories \<noteq> [] then append_lines lib ''Memory: '' memories results
                     else results);
          results = (if contacts \<noteq> [] then append_lines lib ''Contact: '' contacts results
                     else results);
          results = (if preferences \<noteq> []
                     then append_lines lib ''Preference: '' preferences results
                     else results)
      in (results, st3))"

text \<open>\<^verbatim>\<open>format_memories_for_context\<close>.\<close>

fun memory_bullets :: "string list \<Rightarrow> string \<Rightarrow> string" where
  "memory_bullets [] result = result"
| "memory_bullets (memory # rest) result =
     memory_bullets rest (result @ ''- '' @ memory @ [CHR 0x0A])"

definition format_memories_for_context :: "string list \<Rightarrow> string" where
  "format_memories_for_context memories =
     (if memories = [] then []
      else memory_bullets memories (''## Relevant Memories'' @ [CHR 0x0A, CHR 0x0A]))"

section \<open>\<^verbatim>\<open>eaia/memory.py\<close>\<close>

text \<open>
  The module \<^verbatim>\<open>eaia/memory.py\<close> has a function \<^verbatim>\<open>process_email_for_memory\<close> of its own
  (the one the human-inbox nodes import). Its body runs inside
  \<^verbatim>\<open>try: ... except Exception\<close>, which logs the error and returns; the messages are not
  used.
\<close>

definition process_email_for_memory_simple_body ::
  "email_data \<Rightarrow> message list \<Rightarrow> config \<Rightarrow> store \<Rightarrow> py_error + store" where
  "process_email_for_memory_simple_body email messages config st =
     bind_err (getitem (cfg_configurable config)) (\<lambda>configurable.
       (let assistant_id = get_default (cf_assistant_id configurable) ''default'';
            namespace = [assistant_id, ''email_memory''];
            key = get_default (em_id email) ''unknown'';
            memory_data =
              [(''subject'', JStr (get_default (em_subject email) [])),
               (''from'', JStr (get_default (em_from_email email) [])),
               (''to'', JStr (get_default (em_to_email email) [])),
               (''content'', JStr (get_default (em_page_content email) [])),
               (''processed'', JBool True)]
        in Inr (aput namespace key memory_data st)))"

definition process_email_for_memory_simple ::
  "email_data \<Rightarrow> message list \<Rightarrow> config \<Rightarrow> store \<Rightarrow> store" where
  "process_email_for_memory_simple email messages config st =
     except_return (process_email_for_memory_simple_body email messages config st) st"

section \<open>\<^verbatim>\<open>eaia/enhanced-reflection.py\<close>\<close>

record reflection_state =
  rs_messages :: "message list"
  rs_feedback :: "string option"
  rs_prompt_key :: string
  rs_assistant_key :: string
  rs_instructions :: string

record general_response =
  logic :: string
  update_prompt :: bool
  new_prompt :: string

text \<open>
  The reflection model is a language model with structured output. Its prompt is the
  template \<^verbatim>\<open>general_reflection_prompt\<close> filled with four arguments; the model is taken as
  a function of these arguments (the trajectory is the text of the messages, kept here
  as the messages themselves).
\<close>

record reflection_prompt =
  rp_current_prompt :: jvalue
  rp_trajectory :: "message list"
  rp_feedback :: "string option"
  rp_instructions :: string

definition get_output ::
  "(reflection_prompt \<Rightarrow> general_response) \<Rightarrow> message list \<Rightarrow> jvalue \<Rightarrow> string option \<Rightarrow> string
     \<Rightarrow> general_response" where
  "get_output reflection_model messages current_prompt feedback instructions =
     reflection_model
       \<lparr>rp_current_prompt = current_prompt, rp_trajectory = messages,
        rp_feedback = feedback, rp_instructions = instructions\<rparr>"

text \<open>
  \<^verbatim>\<open>update_general\<close>. It has no exception handler: \<^verbatim>\<open>result.value\<close> raises when there is
  no stored prompt, \<^verbatim>\<open>["data"]\<close> when the stored value has no such key, and slicing the
  feedback raises when the feedback is \<^verbatim>\<open>None\<close> (after the first write). A slice
  \<^verbatim>\<open>s[:n]\<close> is \<open>take n s\<close>.
\<close>

definition update_general ::
  "(reflection_prompt \<Rightarrow> general_response) \<Rightarrow> reflection_state \<Rightarrow> store
     \<Rightarrow> (py_error + unit) \<times> store" where
  "update_general reflection_model state st =
     (let namespace = [rs_assistant_key state];
          key = rs_prompt_key state;
          (result, st1) = aget namespace key st
      in case result of
           None \<Rightarrow> (Inl AttributeError, st1)
         | Some found \<Rightarrow>
             (case map_of (item_value found) ''data'' of
                None \<Rightarrow> (Inl KeyError, st1)
              | Some current_prompt \<Rightarrow>
                  (let output = get_output reflection_model (rs_messages state) current_prompt
                                  (rs_feedback state) (rs_instructions state)
                   in if update_prompt output then
                        (let st2 = aput namespace key [(''data'', JStr (new_prompt output))] st1;
                             memories_namespace =
                               [rs_assistant_key state, ''memories'', ''system_prompts'']
                         in case rs_feedback state of
                              None \<Rightarrow> (Inl TypeError, st2)
                            | Some feedback \<Rightarrow>
                                (Inr (),
                                 aput memories_namespace
                                   (''prompt_'' @ key @ ''_'' @ take 20 (rs_instructions state))
                                   [(''content'',
                                     JStr (''System prompt for '' @ key
                                       @ '' was updated based on feedback: '' @ [CHR 0x27]
                                       @ take 100 feedback @ ''...'' @ [CHR 0x27]
                                       @ '' The new prompt is: ''
                                       @ take 100 (new_prompt output) @ ''...''))]
                                   st2))
                      else (Inr (), st1))))"

section \<open>Vocabulary of the statements about the memory namespaces\<close>

text \<open>
  A namespace of the shape the glossary gives: a triple of the assistant id, a
  category and the user id of the run configuration.
\<close>

definition memory_namespace_shape :: "config \<Rightarrow> namespace \<Rightarrow> bool" where
  "memory_namespace_shape config ns =
     (case ns of
        [assistant_id, category, user_id] \<Rightarrow>
          assistant_id =
            get_default (cf_assistant_id (get_default (cfg_configurable config) no_configurable))
              ''default''
          \<and> user_id =
            get_default (cf_user_id (get_default (cfg_configurable config) no_configurable))
              ''default_user''
      | _ \<Rightarrow> False)"

section \<open>\<^verbatim>\<open>eaia/main/config.py\<close>\<close>

text \<open>
  The prompt configuration is the content of \<^verbatim>\<open>config.yaml\<close>, a dictionary (a field is
  \<open>None\<close> when the file lacks the key), with the key \<^verbatim>\<open>memory\<close> that \<^verbatim>\<open>get_config\<close>
  adds: true unless the run configuration says otherwise.
\<close>

record yaml_config =
  yc_name :: "string option"
  yc_full_name :: "string option"
  yc_background :: "string option"
  yc_schedule_preferences :: "string option"
  yc_background_preferences :: "string option"
  yc_response_preferences :: "string option"

record prompt_config =
  pc_yaml :: yaml_config
  pc_memory :: bool

definition get_config :: "yaml_config \<Rightarrow> config \<Rightarrow> prompt_config" where
  "get_config yaml runtime_config =
     \<lparr>pc_yaml = yaml,
      pc_memory =
        (case cfg_configurable runtime_config of
           None \<Rightarrow> True
         | Some configurable \<Rightarrow> get_default (cf_memory configurable) True)\<rparr>"

section \<open>What the graph nodes take from their environment\<close>

record action_request =
  ar_action :: string
  ar_args :: "(string \<times> jvalue) list"

record human_interrupt_config =
  allow_ignore :: bool
  allow_respond :: bool
  allow_edit :: bool
  allow_accept :: bool

record human_interrupt =
  hi_action_request :: action_request
  hi_config :: human_interrupt_config
  hi_description :: "string option"

text \<open>
  The response of the human has a type and arguments, which are \<^verbatim>\<open>None\<close>, a string or an
  action request.
\<close>

datatype response_args = NoArgs | TextArgs string | ActionArgs action_request

record human_response =
  hr_type :: string
  hr_args :: response_args

text \<open>
  The tools bound to the drafting model: the schema classes by their names, and the
  memory tools of the memory library by their namespaces.
\<close>

datatype tool = Schema string | ManageMemoryTool namespace | SearchMemoryTool namespace

record draft_prompt_args =
  dp_schedule_preferences :: jvalue
  dp_random_preferences :: jvalue
  dp_response_preferences :: jvalue
  dp_name :: string
  dp_full_name :: string
  dp_background :: string
  dp_memories :: string
  dp_email_thread :: string
  dp_author :: string
  dp_subject :: string
  dp_to :: string

text \<open>
  The environment of a node: the loaded \<^verbatim>\<open>config.yaml\<close>; the human behind
  \<^verbatim>\<open>interrupt\<close>, who answers a request when the run is resumed; the template
  \<^verbatim>\<open>email_template\<close> of \<^verbatim>\<open>eaia.schemas\<close> as a function of its four arguments (thread,
  author, subject, recipient); the drafting prompt (the templates
  \<^verbatim>\<open>EMAIL_WRITING_INSTRUCTIONS\<close> and \<^verbatim>\<open>draft_prompt\<close>) as a function of the arguments it
  is formatted with; the chat model, which given the bound tools and the messages
  returns a message or raises; and the text of an action request in an f-string.
\<close>

record environment =
  env_yaml :: yaml_config
  env_interrupt :: "human_interrupt \<Rightarrow> human_response"
  env_email_template :: "string \<Rightarrow> string \<Rightarrow> string \<Rightarrow> string \<Rightarrow> string"
  env_draft_prompt :: "draft_prompt_args \<Rightarrow> string"
  env_chat_model :: "tool list \<Rightarrow> message list \<Rightarrow> py_error + message"
  env_action_str :: "action_request \<Rightarrow> string"

text \<open>A run of the reflection graph requested through the client \<^verbatim>\<open>LGC\<close>.\<close>

record reflection_run =
  rr_messages :: "message list"
  rr_feedback :: string
  rr_prompt_types :: "string list"
  rr_assistant_key :: string

section \<open>\<^verbatim>\<open>consolidated/Old files/modified_human_inbox.py\<close>\<close>

definition generate_email_markdown :: "state \<Rightarrow> py_error + string" where
  "generate_email_markdown s =
     bind_err (getitem (st_email s)) (\<lambda>contents.
     bind_err (getitem (em_subject contents)) (\<lambda>subject.
     bind_err (getitem (em_id contents)) (\<lambda>ident.
     bind_err (getitem (em_to_email contents)) (\<lambda>to_email.
     bind_err (getitem (em_from_email contents)) (\<lambda>from_email.
     bind_err (getitem (em_page_content contents)) (\<lambda>page_content.
       Inr (''# '' @ subject @ [CHR 0x0A, CHR 0x0A]
            @ ''[Click here to view the email](https://mail.google.com/mail/u/0/#inbox/''
            @ ident @ '')'' @ [CHR 0x0A, CHR 0x0A]
            @ ''**To**: '' @ to_email @ [CHR 0x0A]
            @ ''**From**: '' @ from_email @ [CHR 0x0A, CHR 0x0A]
            @ page_content @ [CHR 0x0A])))))))"

definition save_email ::
  "library \<Rightarrow> state \<Rightarrow> config \<Rightarrow> store \<Rightarrow> string \<Rightarrow> (py_error + unit) \<times> store" where
  "save_email lib s config st status =
     (case cfg_configurable config of
        None \<Rightarrow> (Inl KeyError, st)
      | Some configurable \<Rightarrow>
          (let namespace = [get_default (cf_assistant_id configurable) ''default'',
                            ''triage_examples'']
           in case bind_err (getitem (st_email s)) (\<lambda>email.
                     bind_err (getitem (em_id email)) (\<lambda>key. Inr (email, key))) of
                Inl e \<Rightarrow> (Inl e, st)
              | Inr (email, key) \<Rightarrow>
                  (let (response, st1) = aget namespace key st
                   in if response = None
                      then (Inr (),
                            aput namespace (lib_uuid4 lib 0)
                              [(''input'', JEmail email), (''triage'', JStr status)] st1)
                      else (Inr (), st1))))"

text \<open>
  \<^verbatim>\<open>_safely_prepare_messages_for_conversion\<close> copies the dictionaries and wraps a
  \<^verbatim>\<open>tool_calls\<close> entry that is not a list into a list; the tool calls of a message are a
  list here, so every message is kept as it is.
\<close>

fun safely_prepare_messages_for_conversion :: "message list \<Rightarrow> message list" where
  "safely_prepare_messages_for_conversion [] = []"
| "safely_prepare_messages_for_conversion (msg # rest) =
     msg # safely_prepare_messages_for_conversion rest"

text \<open>
  \<^verbatim>\<open>convert_to_langchain_messages\<close> of \<^verbatim>\<open>eaia/memory.py\<close>, the one the node imports:
  message objects are kept, dictionaries are converted by role or type, anything else
  is dropped.
\<close>

fun convert_to_langchain_messages_simple :: "message list \<Rightarrow> message list" where
  "convert_to_langchain_messages_simple [] = []"
| "convert_to_langchain_messages_simple (message # rest) =
     (if is_base_message message then [message]
      else if msg_class message = DictMessage then
        (let content = get_default (msg_content message) [] in
         if msg_role message = Some ''user''
           then [langchain_message HumanMessage (Some content)]
         else if msg_role message = Some ''assistant''
           then [langchain_message AIMessage (Some content)]
         else if msg_type message = Some ''tool''
           then [(langchain_message ToolMessage (Some content))
                   \<lparr>msg_tool_call_id := Some (get_default (msg_tool_call_id message) []),
                    msg_name := Some (get_default (msg_name message) [])\<rparr>]
         else [])
      else [])
     @ convert_to_langchain_messages_simple rest"

definition empty_tool_call :: tool_call where
  "empty_tool_call = \<lparr>tc_id = None, tc_name = None, tc_args = None\<rparr>"

text \<open>The text of the response arguments in an f-string, and as the content of a message.\<close>

definition args_str :: "environment \<Rightarrow> response_args \<Rightarrow> string" where
  "args_str env args =
     (case args of NoArgs \<Rightarrow> ''None'' | TextArgs text \<Rightarrow> text
      | ActionArgs request \<Rightarrow> env_action_str env request)"

definition args_content :: "response_args \<Rightarrow> string option" where
  "args_content args = (case args of TextArgs text \<Rightarrow> Some text | _ \<Rightarrow> None)"

text \<open>
  \<^verbatim>\<open>send_message\<close>. The result is the state update or the exception, the store, and the
  reflection runs requested. The node has no exception handler. The content of the tool
  message is the text of the human's reply. The identifier of the last message is read
  with the default \<^verbatim>\<open>""\<close>: from a dictionary by \<^verbatim>\<open>get\<close>; from an object by
  \<^verbatim>\<open>getattr\<close>, where a message of the \<^verbatim>\<open>BaseMessage\<close> classes always has the attribute
  (its value is \<^verbatim>\<open>None\<close> when the message has no identifier) and the default is used
  only for other objects.
\<close>

definition send_message ::
  "library \<Rightarrow> environment \<Rightarrow> state \<Rightarrow> config \<Rightarrow> store
     \<Rightarrow> (py_error + message list) \<times> store \<times> reflection_run list" where
  "send_message lib env s config st =
     (let prompt_config = get_config (env_yaml env) config;
          memory = pc_memory prompt_config
      in case
           bind_err (getitem (yc_name (pc_yaml prompt_config))) (\<lambda>user.
           bind_err (getitem (st_messages s)) (\<lambda>messages.
           bind_err (last_item messages) (\<lambda>last_message.
           bind_err
             (if msg_class last_message = DictMessage
              then first_item (get_default (msg_tool_calls last_message) [empty_tool_call])
              else (let tool_calls = get_default (msg_tool_calls last_message) [empty_tool_call]
                    in Inr (if tool_calls \<noteq> [] then hd tool_calls else empty_tool_call)))
             (\<lambda>tool_call.
           bind_err (generate_email_markdown s) (\<lambda>description.
           bind_err (getitem (st_email s)) (\<lambda>email.
           bind_err (getitem (em_page_content email)) (\<lambda>page_content.
           bind_err (getitem (em_from_email email)) (\<lambda>from_email.
           bind_err (getitem (em_subject email)) (\<lambda>subject.
             Inr (user, messages, last_message, tool_call, description, email,
                  env_email_template env page_content from_email subject
                    (get_default (em_to_email email) []))))))))))) of
           Inl e \<Rightarrow> (Inl e, st, [])
         | Inr (user, messages, last_message, tool_call, description, email, email_text) \<Rightarrow>
             (let tool_call_id = get_default (tc_id tool_call) [];
                  tool_call_name = get_default (tc_name tool_call) [];
                  tool_call_args = get_default (tc_args tool_call) [];
                  msg_id = (if is_base_message last_message then msg_id last_message
                            else Some (get_default (msg_id last_message) []));
                  request =
                    \<lparr>hi_action_request =
                       \<lparr>ar_action = tool_call_name, ar_args = tool_call_args\<rparr>,
                     hi_config =
                       \<lparr>allow_ignore = True, allow_respond = True, allow_edit = False,
                        allow_accept = False\<rparr>,
                     hi_description = Some description\<rparr>;
                  response = env_interrupt env request
              in if hr_type response = ''response'' then
                   (let msg =
                          \<lparr>msg_class = DictMessage, msg_role = None, msg_type = Some ''tool'',
                           msg_name = Some tool_call_name,
                           msg_content = args_content (hr_args response), msg_id = None,
                           msg_tool_call_id = Some tool_call_id, msg_tool_calls = None\<rparr>
                    in if memory then
                         (case save_email lib s config st ''email'' of
                            (Inl e, st1) \<Rightarrow> (Inl e, st1, [])
                          | (Inr u, st1) \<Rightarrow>
                              (let safe_messages =
                                     safely_prepare_messages_for_conversion (messages @ [msg]);
                                   st2 = process_email_for_memory_simple email
                                           (convert_to_langchain_messages_simple safe_messages)
                                           config st1
                               in case cfg_configurable config of
                                    None \<Rightarrow> (Inl KeyError, st2, [])
                                  | Some configurable \<Rightarrow>
                                      (Inr [msg], st2,
                                       [\<lparr>rr_messages =
                                           \<lparr>msg_class = DictMessage, msg_role = Some ''user'',
                                            msg_type = None, msg_name = None,
                                            msg_content =
                                              Some (''Draft a response to this email:''
                                                    @ [CHR 0x0A, CHR 0x0A] @ email_text),
                                            msg_id = None, msg_tool_call_id = None,
                                            msg_tool_calls = None\<rparr>
                                           # messages,
                                         rr_feedback =
                                           user @ '' responded in this way: ''
                                           @ args_str env (hr_args response),
                                         rr_prompt_types = [''background''],
                                         rr_assistant_key =
                                           get_default (cf_assistant_id configurable)
                                             ''default''\<rparr>])))
                       else (Inr [msg], st, []))
                 else if hr_type response = ''ignore'' then
                   (let msg =
                          \<lparr>msg_class = DictMessage, msg_role = Some ''assistant'',
                           msg_type = None, msg_name = None, msg_content = Some [],
                           msg_id = msg_id, msg_tool_call_id = None,
                           msg_tool_calls =
                             Some [\<lparr>tc_id = Some tool_call_id, tc_name = Some ''Ignore'',
                                    tc_args = Some [(''ignore'', JBool True)]\<rparr>]\<rparr>
                    in if memory then
                         (case save_email lib s config st ''no'' of
                            (Inl e, st1) \<Rightarrow> (Inl e, st1, [])
                          | (Inr u, st1) \<Rightarrow> (Inr [msg], st1, []))
                       else (Inr [msg], st, []))
                 else (Inl ValueError, st, [])))"

section \<open>\<^verbatim>\<open>eaia/main/draft-response-consolidation.py\<close>\<close>

text \<open>\<^verbatim>\<open>create_memory_tools\<close> of \<^verbatim>\<open>eaia/memory-module.py\<close>.\<close>

definition create_memory_tools :: "config \<Rightarrow> tool list" where
  "create_memory_tools config =
     (let memories_namespace = get_memory_namespace config ''memories'';
          contacts_namespace = get_memory_namespace config ''contacts'';
          preferences_namespace = get_memory_namespace config ''preferences''
      in [ManageMemoryTool memories_namespace, SearchMemoryTool memories_namespace,
          ManageMemoryTool contacts_namespace, SearchMemoryTool contacts_namespace,
          ManageMemoryTool preferences_namespace, SearchMemoryTool preferences_namespace])"

text \<open>The tools bound to the model: \<^verbatim>\<open>Ignore\<close> is offered once there are messages.\<close>

definition draft_tools :: "config \<Rightarrow> message list \<Rightarrow> tool list" where
  "draft_tools config messages =
     [Schema ''NewEmailDraft'', Schema ''ResponseEmailDraft'', Schema ''Question'',
      Schema ''MeetingAssistant'', Schema ''SendCalendarInvite'']
     @ create_memory_tools config
     @ (if length messages > 0 then [Schema ''Ignore''] else [])"

text \<open>
  The block that \<^verbatim>\<open>draft_response\<close> runs for each of its three preference keys: the
  stored value when there is one with the key \<^verbatim>\<open>data\<close>, otherwise the value of the
  configuration file, which is then written to the store.
\<close>

definition stored_preference ::
  "namespace \<Rightarrow> string \<Rightarrow> string option \<Rightarrow> store \<Rightarrow> (py_error + jvalue) \<times> store" where
  "stored_preference namespace key configured st =
     (let (result, st1) = aget namespace key st
      in case (case result of None \<Rightarrow> None | Some found \<Rightarrow> map_of (item_value found) ''data'') of
           Some data \<Rightarrow> (Inr data, st1)
         | None \<Rightarrow>
             (case configured of
                None \<Rightarrow> (Inl KeyError, st1)
              | Some preferences \<Rightarrow>
                  (Inr (JStr preferences),
                   aput namespace key [(''data'', JStr preferences)] st1)))"

definition user_message :: "string \<Rightarrow> message" where
  "user_message content =
     \<lparr>msg_class = DictMessage, msg_role = Some ''user'', msg_type = None, msg_name = None,
      msg_content = Some content, msg_id = None, msg_tool_call_id = None,
      msg_tool_calls = None\<rparr>"

text \<open>
  The first part of \<^verbatim>\<open>draft_response\<close>, up to the loop: it reads the memories and the
  three preferences and builds the tools and the messages of the first request.
\<close>

definition draft_request ::
  "library \<Rightarrow> environment \<Rightarrow> state \<Rightarrow> config \<Rightarrow> store
     \<Rightarrow> (py_error + tool list \<times> message list) \<times> store" where
  "draft_request lib env s config st =
     (case
        bind_err (getitem (cfg_configurable config)) (\<lambda>configurable.
        bind_err (getitem (st_email s)) (\<lambda>email.
        bind_err (getitem (em_subject email)) (\<lambda>subject.
        bind_err (getitem (em_from_email email)) (\<lambda>from_email.
        bind_err (getitem (em_page_content email)) (\<lambda>page_content.
          Inr (configurable, email, subject, from_email, page_content)))))) of
        Inl e \<Rightarrow> (Inl e, st)
      | Inr (configurable, email, subject, from_email, page_content) \<Rightarrow>
          (let messages = get_default (st_messages s) [];
               tools = draft_tools config messages;
               query = subject @ '' '' @ from_email @ '' '' @ take 200 page_content;
               (memories, st1) = retrieve_relevant_memories lib query config st 5;
               formatted_memories = format_memories_for_context memories;
               prompt_config = get_config (env_yaml env) config;
               yaml = pc_yaml prompt_config;
               namespace = [get_default (cf_assistant_id configurable) ''default''];
               (schedule, st2) =
                 stored_preference namespace ''schedule_preferences''
                   (yc_schedule_preferences yaml) st1
           in case schedule of
                Inl e \<Rightarrow> (Inl e, st2)
              | Inr schedule_preferences \<Rightarrow>
                  (let (random, st3) =
                         stored_preference namespace ''random_preferences''
                           (yc_background_preferences yaml) st2
                   in case random of
                        Inl e \<Rightarrow> (Inl e, st3)
                      | Inr random_preferences \<Rightarrow>
                          (let (respond, st4) =
                                 stored_preference namespace ''response_preferences''
                                   (yc_response_preferences yaml) st3
                           in case respond of
                                Inl e \<Rightarrow> (Inl e, st4)
                              | Inr response_preferences \<Rightarrow>
                                  (case
                                     bind_err (getitem (yc_name yaml)) (\<lambda>name.
                                     bind_err (getitem (yc_full_name yaml)) (\<lambda>full_name.
                                     bind_err (getitem (yc_background yaml)) (\<lambda>background.
                                       Inr (name, full_name, background)))) of
                                     Inl e \<Rightarrow> (Inl e, st4)
                                   | Inr (name, full_name, background) \<Rightarrow>
                                       (let input_message =
                                              env_draft_prompt env
                                                \<lparr>dp_schedule_preferences = schedule_preferences,
                                                 dp_random_preferences = random_preferences,
                                                 dp_response_preferences = response_preferences,
                                                 dp_name = name, dp_full_name = full_name,
                                                 dp_background = background,
                                                 dp_memories = formatted_memories,
                                                 dp_email_thread = page_content,
                                                 dp_author = from_email, dp_subject = subject,
                                                 dp_to = get_default (em_to_email email) []\<rparr>
                                        in (Inr (tools, user_message input_message # messages),
                                            st4)))))))"

text \<open>
  The loop of \<^verbatim>\<open>draft_response\<close>, with the counter \<open>i\<close>, the messages of the next
  request and the last response (\<open>None\<close> before the first one). It returns the response
  the loop ends with, or the exception, and the requests made: the messages of every
  call of the model, in order.
\<close>

function draft_loop ::
  "(message list \<Rightarrow> py_error + message) \<Rightarrow> nat \<Rightarrow> message list \<Rightarrow> message option
     \<Rightarrow> (py_error + message) \<times> message list list" where
  "draft_loop model i messages last_response =
     (if i < 5 then
        (case bind_err (model messages) (\<lambda>reply.
                bind_err (attr_tool_calls reply) (\<lambda>tool_calls. Inr (reply, tool_calls))) of
           Inl e \<Rightarrow> (Inl e, [messages])
         | Inr (reply, tool_calls) \<Rightarrow>
             if length tool_calls \<noteq> 1
             then apsnd ((#) messages)
                    (draft_loop model (i + 1)
                       (messages @ [user_message ''Please call a valid tool call.''])
                       (Some reply))
             else (Inr reply, [messages]))
      else (case last_response of None \<Rightarrow> Inl UnboundLocalError | Some reply \<Rightarrow> Inr reply,
            []))"
  by pat_completeness auto
termination
  by (relation "measure (\<lambda>(model, i, messages, last_response). 5 - i)") auto

record draft_result =
  dr_draft :: message
  dr_messages :: "message list"

definition error_response :: message where
  "error_response =
     (let error_message =
            ''I'' @ [CHR 0x27] @ ''m having trouble drafting a response due to a technical ''
            @ ''issue. Could you please provide some guidance on how to proceed with this email?''
      in \<lparr>msg_class = DictMessage, msg_role = None, msg_type = None, msg_name = None,
          msg_content = Some error_message, msg_id = None, msg_tool_call_id = None,
          msg_tool_calls =
            Some [\<lparr>tc_id = Some ''error_tool_call'', tc_name = Some ''Question'',
                   tc_args = Some [(''content'', JStr error_message)]\<rparr>]\<rparr>)"

text \<open>
  \<^verbatim>\<open>draft_response\<close>: the state update, the store, and the requests made to the model.
  Every exception of the body is caught and answered with the fallback draft.
\<close>

definition draft_response ::
  "library \<Rightarrow> environment \<Rightarrow> state \<Rightarrow> config \<Rightarrow> store
     \<Rightarrow> draft_result \<times> store \<times> message list list" where
  "draft_response lib env s config st =
     (case draft_request lib env s config st of
        (Inl e, st') \<Rightarrow>
          (\<lparr>dr_draft = error_response, dr_messages = [error_response]\<rparr>, st', [])
      | (Inr (tools, messages), st') \<Rightarrow>
          (case draft_loop (env_chat_model env tools) 0 messages None of
             (Inl e, requests) \<Rightarrow>
               (\<lparr>dr_draft = error_response, dr_messages = [error_response]\<rparr>, st', requests)
           | (Inr reply, requests) \<Rightarrow>
               (\<lparr>dr_draft = reply, dr_messages = [reply]\<rparr>, st', requests)))"

subsection \<open>Vocabulary of the statements about \<^verbatim>\<open>draft_response\<close>\<close>

text \<open>
  The model answered, and its response does not contain exactly one tool call: the
  case in which the loop asks again.
\<close>

definition lacks_single_tool_call :: "py_error + message \<Rightarrow> bool" where
  "lacks_single_tool_call answer =
     (case answer of
        Inl e \<Rightarrow> False
      | Inr reply \<Rightarrow>
          (case attr_tool_calls reply of
             Inl e \<Rightarrow> False
           | Inr tool_calls \<Rightarrow> length tool_calls \<noteq> 1))"

text \<open>The chat model with the tools \<^verbatim>\<open>draft_response\<close> binds to it in state \<open>s\<close>.\<close>

definition drafting_model ::
  "environment \<Rightarrow> config \<Rightarrow> state \<Rightarrow> message list \<Rightarrow> py_error + message" where
  "drafting_model env config s =
     env_chat_model env (draft_tools config (get_default (st_messages s) []))"

section \<open>Vocabulary of the statements about \<^verbatim>\<open>send_message\<close>\<close>

text \<open>
  What the request of \<^verbatim>\<open>send_message\<close> offers the human: to ignore and to respond, not
  to edit and not to accept.
\<close>

definition offers_ignore_and_respond :: human_interrupt_config where
  "offers_ignore_and_respond =
     \<lparr>allow_ignore = True, allow_respond = True, allow_edit = False, allow_accept = False\<rparr>"

section \<open>Example inputs\<close>

definition example_config :: config where
  "example_config = \<lparr>cfg_configurable = Some no_configurable\<rparr>"

definition example_store :: store where
  "example_store = \<lparr>items = [], ranking = (\<lambda>query found. found), calls = []\<rparr>"

definition example_email :: email_data where
  "example_email =
     \<lparr>em_id = Some ''m1'', em_subject = Some ''Lunch'', em_from_email = Some ''ann@example.com'',
      em_to_email = Some ''bob@example.com'', em_page_content = Some ''Are you free at noon?''\<rparr>"

definition example_preference :: email_preference where
  "example_preference =
     \<lparr>ep_type = ''Meeting Time'', ep_description = ''mornings'', ep_confidence = 1\<rparr>"

definition example_contact :: contact_info where
  "example_contact =
     \<lparr>ci_name = ''Ann Lee'', ci_email = Some ''ann@example.com'', ci_company = None,
      ci_role = None, ci_relationship = None\<rparr>"

text \<open>Lowercasing of ASCII text, for the example library.\<close>

definition ascii_lower :: "string \<Rightarrow> string" where
  "ascii_lower text =
     map (\<lambda>c. get_default
                (map_of (zip ''ABCDEFGHIJKLMNOPQRSTUVWXYZ'' ''abcdefghijklmnopqrstuvwxyz'') c) c)
       text"

text \<open>
  A library whose extractions succeed: one contact and one preference are extracted,
  the memory manager finds nothing.
\<close>

definition example_library :: library where
  "example_library =
     \<lparr>lib_summary = (\<lambda>messages.
        Inr \<lparr>cs_subject = ''Lunch'', cs_participants = [''ann@example.com''],
             cs_key_points = [''noon''], cs_action_items = None,
             cs_follow_up_needed = False\<rparr>),
      lib_contacts = (\<lambda>messages. Inr [example_contact]),
      lib_preferences = (\<lambda>messages. Inr [example_preference]),
      lib_manager = (\<lambda>messages. Inr []),
      lib_lower = ascii_lower,
      lib_repr = (\<lambda>email. []),
      lib_uuid4 = (\<lambda>n. ''uuid'')\<rparr>"

definition example_reflection_state :: reflection_state where
  "example_reflection_state =
     \<lparr>rs_messages = [], rs_feedback = Some ''Too long'', rs_prompt_key = ''rewrite_instructions'',
      rs_assistant_key = ''default'', rs_instructions = ''Only update the tone''\<rparr>"

definition example_prompt_store :: store where
  "example_prompt_store =
     \<lparr>items = [\<lparr>item_namespace = [''default''], item_key = ''rewrite_instructions'',
                 item_value = [(''data'', JStr ''Write politely.'')]\<rparr>],
      ranking = (\<lambda>query found. found), calls = []\<rparr>"

definition example_reflection_model :: "reflection_prompt \<Rightarrow> general_response" where
  "example_reflection_model prompt =
     \<lparr>logic = ''shorter'', update_prompt = True, new_prompt = ''Be brief.''\<rparr>"

definition example_message :: message where
  "example_message =
     \<lparr>msg_class = AIMessage, msg_role = None, msg_type = None, msg_name = None,
      msg_content = Some [], msg_id = Some ''run-1'', msg_tool_call_id = None,
      msg_tool_calls =
        Some [\<lparr>tc_id = Some ''call-1'', tc_name = Some ''Question'',
               tc_args = Some [(''content'', JStr ''Which day?'')]\<rparr>]\<rparr>"

definition example_state :: state where
  "example_state =
     \<lparr>st_email = Some example_email, st_triage = Some \<lparr>response = ''email''\<rparr>,
      st_messages = Some [example_message]\<rparr>"

definition example_yaml :: yaml_config where
  "example_yaml =
     \<lparr>yc_name = Some ''Ann'', yc_full_name = Some ''Ann Lee'', yc_background = Some [],
      yc_schedule_preferences = Some [], yc_background_preferences = Some [],
      yc_response_preferences = Some []\<rparr>"

text \<open>
  An environment whose human answers every request with the given response, and whose
  chat model returns the given message whatever it is asked.
\<close>

definition example_environment :: "human_response \<Rightarrow> message \<Rightarrow> environment" where
  "example_environment answer reply =
     \<lparr>env_yaml = example_yaml,
      env_interrupt = (\<lambda>request. answer),
      env_email_template = (\<lambda>email_thread author subject to. subject),
      env_draft_prompt = (\<lambda>args. dp_subject args),
      env_chat_model = (\<lambda>tools messages. Inr reply),
      env_action_str = (\<lambda>request. ar_action request)\<rparr>"

definition example_reply :: message where
  "example_reply =
     \<lparr>msg_class = AIMessage, msg_role = None, msg_type = None, msg_name = None,
      msg_content = Some ''I am not sure which tool to call.'', msg_id = Some ''run-2'',
      msg_tool_call_id = None, msg_tool_calls = Some []\<rparr>"

definition example_answer :: human_response where
  "example_answer = \<lparr>hr_type = ''ignore'', hr_args = NoArgs\<rparr>"



text \<open>A library whose first extraction raises.\<close>

definition example_raising_library :: library where
  "example_raising_library = example_library\<lparr>lib_summary := (\<lambda>messages. Inl TypeError)\<rparr>"

section \<open>Properties of the routing functions\<close>

lemma route_after_triage_cases:
  "route_after_triage s =
     (case st_triage s of
        None \<Rightarrow> ''notify''
      | Some t \<Rightarrow>
          if response t = ''email'' \<or> response t = ''question'' then ''draft_response''
          else if response t = ''no'' then ''mark_as_read_node''
          else ''notify'')"
  by (simp add: route_after_triage_def route_after_triage_body_def bind_err_def getitem_def
      except_return_def split: option.splits)

lemma route_after_triage_ends:
  "route_after_triage s \<in> set (router_ends Route_after_triage)"
  by (simp add: route_after_triage_cases split: option.splits)

lemma take_action_single:
  assumes "exposes_single_tool_call s = Some tc"
  shows "take_action s =
     (case tc_name tc of
        None \<Rightarrow> ''bad_tool_name''
      | Some n \<Rightarrow>
          if n = ''Question'' then ''send_message''
          else if n = ''ResponseEmailDraft'' then ''rewrite''
          else if n = ''Ignore'' then ''mark_as_read_node''
          else if n = ''MeetingAssistant'' then ''find_meeting_time''
          else if n = ''SendCalendarInvite'' then ''send_cal_invite''
          else if n = ''ManageMemory'' \<or> n = ''SearchMemory'' then ''process_memory_node''
          else ''bad_tool_name'')"
proof -
  from assms obtain ms where ms: "st_messages s = Some ms" "ms \<noteq> []"
    and tcs: "attr_tool_calls (last ms) = Inr [tc]"
    by (auto simp: exposes_single_tool_call_def split: option.splits if_splits sum.splits list.splits)
  show ?thesis
    by (simp add: take_action_def take_action_body_def bind_err_def getitem_def ms tcs
        last_item_def first_item_def except_return_def split: option.splits)
qed

lemma take_action_none:
  assumes "exposes_single_tool_call s = None"
  shows "take_action s = ''bad_tool_name''"
proof (cases "st_messages s")
  case None
  then show ?thesis
    by (simp add: take_action_def take_action_body_def bind_err_def getitem_def except_return_def)
next
  case (Some ms)
  show ?thesis
  proof (cases "ms = []")
    case True
    with Some show ?thesis
      by (simp add: take_action_def take_action_body_def bind_err_def getitem_def
          last_item_def except_return_def)
  next
    case False
    show ?thesis
    proof (cases "attr_tool_calls (last ms)")
      case (Inl e)
      with Some False show ?thesis
        by (simp add: take_action_def take_action_body_def bind_err_def getitem_def
            last_item_def except_return_def)
    next
      case (Inr tcs)
      with assms Some False have "length tcs \<noteq> 1"
        by (auto simp: exposes_single_tool_call_def split: list.splits)
      with Some False Inr show ?thesis
        by (simp add: take_action_def take_action_body_def bind_err_def getitem_def
            last_item_def except_return_def)
    qed
  qed
qed

lemma take_action_ends: "take_action s \<in> set (router_ends Take_action)"
proof (cases "exposes_single_tool_call s")
  case None
  then show ?thesis by (simp add: take_action_none)
next
  case (Some tc)
  then show ?thesis by (simp add: take_action_single split: option.splits)
qed

lemma enter_after_human_ends: "enter_after_human s \<in> set (router_ends Enter_after_human)"
  by (simp add: enter_after_human_def enter_after_human_body_def bind_err_def getitem_def
      except_return_def last_item_def first_item_def Let_def
      split: option.splits sum.splits list.splits)

text \<open>
  Claim C2, as stated: triage has exactly the three outcomes \<^verbatim>\<open>no\<close>, \<^verbatim>\<open>email\<close> and
  \<^verbatim>\<open>notify\<close>, routed to \<^verbatim>\<open>mark_as_read_node\<close>, \<^verbatim>\<open>draft_response\<close> and \<^verbatim>\<open>notify\<close>, and no
  other outcome exists. The routing function knows a fourth outcome: the response
  \<^verbatim>\<open>question\<close> is not one of the three, is matched by a branch of its own (it does not
  fall to the default) and is routed to \<^verbatim>\<open>draft_response\<close>.
\<close>

theorem triage_question_counterexample:
  "route_after_triage
     \<lparr>st_email = None, st_triage = Some \<lparr>response = ''question''\<rparr>, st_messages = None\<rparr>
     = ''draft_response''
   \<and> route_after_triage_body
     \<lparr>st_email = None, st_triage = Some \<lparr>response = ''question''\<rparr>, st_messages = None\<rparr>
     = Inr ''draft_response''
   \<and> ''question'' \<notin> set [''no'', ''email'', ''notify'']"
  by (simp add: route_after_triage_def route_after_triage_body_def bind_err_def getitem_def
      except_return_def)

text \<open>
  Claim C2, amended: \<^verbatim>\<open>route_after_triage\<close> always returns one of the three nodes
  \<^verbatim>\<open>draft_response\<close>, \<^verbatim>\<open>mark_as_read_node\<close>, \<^verbatim>\<open>notify\<close>; it returns
  \<^verbatim>\<open>mark_as_read_node\<close> exactly for the response \<^verbatim>\<open>no\<close>, \<^verbatim>\<open>draft_response\<close> exactly for
  the responses \<^verbatim>\<open>email\<close> and \<^verbatim>\<open>question\<close>, and \<^verbatim>\<open>notify\<close> for the response
  \<^verbatim>\<open>notify\<close> and for every other response.
\<close>

theorem route_after_triage_four_outcomes:
  "route_after_triage s \<in> set [''draft_response'', ''mark_as_read_node'', ''notify'']
   \<and> (st_triage s = Some t \<longrightarrow>
        (route_after_triage s = ''mark_as_read_node'' \<longleftrightarrow> response t = ''no'')
      \<and> (route_after_triage s = ''draft_response'' \<longleftrightarrow>
           response t = ''email'' \<or> response t = ''question'')
      \<and> (route_after_triage s = ''notify'' \<longleftrightarrow>
           response t \<notin> set [''no'', ''email'', ''question'']))"
proof -
  have "route_after_triage s \<in> set [''draft_response'', ''mark_as_read_node'', ''notify'']"
    using route_after_triage_ends [of s] by simp
  moreover have "st_triage s = Some t \<longrightarrow>
        (route_after_triage s = ''mark_as_read_node'' \<longleftrightarrow> response t = ''no'')
      \<and> (route_after_triage s = ''draft_response'' \<longleftrightarrow>
           response t = ''email'' \<or> response t = ''question'')
      \<and> (route_after_triage s = ''notify'' \<longleftrightarrow>
           response t \<notin> set [''no'', ''email'', ''question''])"
    by (simp add: route_after_triage_cases)
  ultimately show ?thesis by blast
qed

theorem route_after_triage_four_outcomes_witness:
  "route_after_triage
     \<lparr>st_email = None, st_triage = Some \<lparr>response = ''no''\<rparr>, st_messages = None\<rparr>
     = ''mark_as_read_node''"
  using route_after_triage_four_outcomes
    [of "\<lparr>st_email = None, st_triage = Some \<lparr>response = ''no''\<rparr>, st_messages = None\<rparr>"
        "\<lparr>response = ''no''\<rparr>"]
  by simp

text \<open>
  For a message object, whose tool calls \<^verbatim>\<open>take_action\<close> can read as
  \<^verbatim>\<open>prediction.tool_calls\<close>, the name of the single tool call decides the node, and
  \<^verbatim>\<open>bad_tool_name\<close> is returned exactly when the name is none of the seven or the
  message does not expose exactly one tool call.
\<close>

lemma take_action_by_attribute:
  "(exposes_single_tool_call s = Some tc \<longrightarrow>
       (tc_name tc = Some ''Question'' \<longrightarrow> take_action s = ''send_message'')
     \<and> (tc_name tc = Some ''ResponseEmailDraft'' \<longrightarrow> take_action s = ''rewrite'')
     \<and> (tc_name tc = Some ''Ignore'' \<longrightarrow> take_action s = ''mark_as_read_node'')
     \<and> (tc_name tc = Some ''MeetingAssistant'' \<longrightarrow> take_action s = ''find_meeting_time'')
     \<and> (tc_name tc = Some ''SendCalendarInvite'' \<longrightarrow> take_action s = ''send_cal_invite'')
     \<and> (tc_name tc = Some ''ManageMemory'' \<longrightarrow> take_action s = ''process_memory_node'')
     \<and> (tc_name tc = Some ''SearchMemory'' \<longrightarrow> take_action s = ''process_memory_node''))
   \<and> (take_action s = ''bad_tool_name'' \<longleftrightarrow>
        \<not> (\<exists>tc n. exposes_single_tool_call s = Some tc \<and> tc_name tc = Some n
              \<and> n \<in> set recognised_tools))"
proof (cases "exposes_single_tool_call s")
  case None
  then show ?thesis by (simp add: take_action_none)
next
  case (Some tc')
  then show ?thesis
    by (cases "tc_name tc'") (auto simp: take_action_single recognised_tools_def)
qed



text \<open>
  Claim C10: the three routing functions return a label for every state and never
  raise. Each result is one of the declared labels; every exception of the body is
  turned into the fallback (\<^verbatim>\<open>notify\<close>, \<^verbatim>\<open>bad_tool_name\<close>, \<^verbatim>\<open>draft_response\<close>); an
  unknown triage response gives \<^verbatim>\<open>notify\<close>; and \<^verbatim>\<open>enter_after_human\<close> returns
  \<^verbatim>\<open>mark_as_read_node\<close> for an empty or absent message list when the triage response
  is \<^verbatim>\<open>notify\<close>.
\<close>

theorem routing_functions_total:
  "route_after_triage s \<in> set [''draft_response'', ''mark_as_read_node'', ''notify'']
   \<and> (route_after_triage_body s = Inl e \<longrightarrow> route_after_triage s = ''notify'')
   \<and> (st_triage s = Some t \<and> response t \<notin> set [''email'', ''no'', ''notify'', ''question'']
        \<longrightarrow> route_after_triage s = ''notify'')
   \<and> take_action s \<in> set [''send_message'', ''rewrite'', ''mark_as_read_node'',
        ''find_meeting_time'', ''send_cal_invite'', ''process_memory_node'', ''bad_tool_name'']
   \<and> (take_action_body s = Inl e \<longrightarrow> take_action s = ''bad_tool_name'')
   \<and> enter_after_human s \<in> set [''mark_as_read_node'', ''draft_response'',
        ''send_email_node'', ''send_cal_invite_node'']
   \<and> (get_default (st_messages s) [] = [] \<and> st_triage s = Some t \<and> response t = ''notify''
        \<longrightarrow> enter_after_human s = ''mark_as_read_node'')
   \<and> (enter_after_human_body s = Inl e \<longrightarrow> enter_after_human s = ''draft_response'')"
proof -
  have 1: "route_after_triage s \<in> set [''draft_response'', ''mark_as_read_node'', ''notify'']"
    using route_after_triage_ends [of s] by simp
  have 2: "route_after_triage_body s = Inl e \<longrightarrow> route_after_triage s = ''notify''"
    by (simp add: route_after_triage_def except_return_def)
  have 3: "st_triage s = Some t \<and> response t \<notin> set [''email'', ''no'', ''notify'', ''question'']
        \<longrightarrow> route_after_triage s = ''notify''"
    by (simp add: route_after_triage_cases)
  have 4: "take_action s \<in> set [''send_message'', ''rewrite'', ''mark_as_read_node'',
        ''find_meeting_time'', ''send_cal_invite'', ''process_memory_node'', ''bad_tool_name'']"
    using take_action_ends [of s] by simp
  have 5: "take_action_body s = Inl e \<longrightarrow> take_action s = ''bad_tool_name''"
    by (simp add: take_action_def except_return_def)
  have 6: "enter_after_human s \<in> set [''mark_as_read_node'', ''draft_response'',
        ''send_email_node'', ''send_cal_invite_node'']"
    using enter_after_human_ends [of s] by simp
  have 7: "get_default (st_messages s) [] = [] \<and> st_triage s = Some t \<and> response t = ''notify''
        \<longrightarrow> enter_after_human s = ''mark_as_read_node''"
    by (simp add: enter_after_human_def enter_after_human_body_def bind_err_def getitem_def
        except_return_def)
  have 8: "enter_after_human_body s = Inl e \<longrightarrow> enter_after_human s = ''draft_response''"
    by (simp add: enter_after_human_def except_return_def)
  from 1 2 3 4 5 6 7 8 show ?thesis by blast
qed

theorem routing_functions_total_witness:
  "route_after_triage \<lparr>st_email = None, st_triage = None, st_messages = None\<rparr> = ''notify''
   \<and> take_action \<lparr>st_email = None, st_triage = None, st_messages = None\<rparr> = ''bad_tool_name''
   \<and> enter_after_human \<lparr>st_email = None, st_triage = None, st_messages = None\<rparr>
       = ''draft_response''
   \<and> enter_after_human
       \<lparr>st_email = None, st_triage = Some \<lparr>response = ''notify''\<rparr>, st_messages = Some []\<rparr>
       = ''mark_as_read_node''
   \<and> route_after_triage
       \<lparr>st_email = None, st_triage = Some \<lparr>response = ''spam''\<rparr>, st_messages = Some []\<rparr>
       = ''notify''"
  using routing_functions_total
      [of "\<lparr>st_email = None, st_triage = None, st_messages = None\<rparr>" KeyError]
    routing_functions_total
      [of "\<lparr>st_email = None, st_triage = Some \<lparr>response = ''notify''\<rparr>, st_messages = Some []\<rparr>"
          _ "\<lparr>response = ''notify''\<rparr>"]
    routing_functions_total
      [of "\<lparr>st_email = None, st_triage = Some \<lparr>response = ''spam''\<rparr>, st_messages = Some []\<rparr>"
          _ "\<lparr>response = ''spam''\<rparr>"]
  by (simp add: route_after_triage_body_def take_action_body_def enter_after_human_body_def
      bind_err_def getitem_def get_default_def)

section \<open>Properties of the compiled graph\<close>

lemma graph_edges:
  "edges build_memory_enhanced_graph =
     [(''send_message'', ''human_node''), (''send_cal_invite'', ''human_node''),
      (''find_meeting_time'', ''draft_response''), (''bad_tool_name'', ''draft_response''),
      (''send_cal_invite_node'', ''draft_response''), (''send_email_node'', ''mark_as_read_node''),
      (''rewrite'', ''send_email_draft''), (''send_email_draft'', ''human_node''),
      (''mark_as_read_node'', ''__end__''), (''notify'', ''human_node''),
      (''process_memory_node'', ''draft_response'')]"
  by (simp add: build_memory_enhanced_graph_def StateGraph_def add_node_def add_edge_def
      add_conditional_edges_def set_entry_point_def END_def)

lemma graph_branches:
  "branches build_memory_enhanced_graph =
     [(''triage_input'', Route_after_triage), (''draft_response'', Take_action),
      (''human_node'', Enter_after_human)]"
  by (simp add: build_memory_enhanced_graph_def StateGraph_def add_node_def add_edge_def
      add_conditional_edges_def set_entry_point_def END_def)

lemma graph_entry: "entry_point build_memory_enhanced_graph = Some ''triage_input''"
  by (simp add: build_memory_enhanced_graph_def StateGraph_def add_node_def add_edge_def
      add_conditional_edges_def set_entry_point_def END_def)

lemma successors_iff:
  "b \<in> set (successors g a) \<longleftrightarrow>
     (a, b) \<in> set (edges g) \<or> (\<exists>r. (a, r) \<in> set (branches g) \<and> b \<in> set (router_ends r))"
  by (force simp: successors_def)

lemma next_nodes_successors:
  "set (next_nodes g s n) \<subseteq> set (successors g n)"
proof
  fix b assume "b \<in> set (next_nodes g s n)"
  then consider "(n, b) \<in> set (edges g)"
    | r where "(n, r) \<in> set (branches g)" "b = router_fn r s"
    by (force simp: next_nodes_def)
  then show "b \<in> set (successors g n)"
  proof cases
    case 1
    then show ?thesis by (simp add: successors_iff)
  next
    case 2
    have "router_fn r s \<in> set (router_ends r)"
      by (cases r) (simp_all only: router_fn.simps route_after_triage_ends take_action_ends
          enter_after_human_ends)
    with 2 show ?thesis unfolding successors_iff by blast
  qed
qed

lemma is_path_step:
  "is_path g p \<Longrightarrow> Suc i < length p \<Longrightarrow> p ! Suc i \<in> set (successors g (p ! i))"
proof (induction g p arbitrary: i rule: is_path.induct)
  case (3 g a b rest)
  then show ?case by (cases i) auto
qed auto

lemma sending_pred:
  assumes "b \<in> set (successors build_memory_enhanced_graph a)" "b \<in> set sending_nodes"
  shows "a = ''human_node''"
proof -
  from assms(1) consider
    (e) "(a, b) \<in> set (edges build_memory_enhanced_graph)"
    | (c) r where "(a, r) \<in> set (branches build_memory_enhanced_graph)" "b \<in> set (router_ends r)"
    unfolding successors_iff by blast
  then show ?thesis
  proof cases
    case e
    with assms(2) show ?thesis
      by (auto simp: graph_edges sending_nodes_def)
  next
    case c
    with assms(2) show ?thesis
      by (auto simp: graph_branches sending_nodes_def)
  qed
qed

lemma human_pred:
  assumes "''human_node'' \<in> set (successors build_memory_enhanced_graph a)"
  shows "a \<in> set interrupt_nodes"
proof -
  from assms consider
    (e) "(a, ''human_node'') \<in> set (edges build_memory_enhanced_graph)"
    | (c) r where "(a, r) \<in> set (branches build_memory_enhanced_graph)"
        "''human_node'' \<in> set (router_ends r)"
    unfolding successors_iff by blast
  then show ?thesis
  proof cases
    case e
    then show ?thesis
      by (auto simp: graph_edges interrupt_nodes_def)
  next
    case c
    then show ?thesis
      by (auto simp: graph_branches)
  qed
qed

text \<open>
  Claim C1: the entry point of the graph is \<^verbatim>\<open>triage_input\<close>, and on every path from the
  entry point a node that sends (\<^verbatim>\<open>send_email_node\<close>, \<^verbatim>\<open>send_cal_invite_node\<close>) is
  entered from \<^verbatim>\<open>human_node\<close>, which itself is entered from one of the nodes that
  suspend the run for the human. No email or invite is sent without the human-review
  step right before it.
\<close>

theorem send_only_after_human_node:
  assumes "is_path build_memory_enhanced_graph p"
    and "p \<noteq> []"
    and "entry_point build_memory_enhanced_graph = Some (hd p)"
    and "i < length p"
    and "p ! i \<in> set sending_nodes"
  shows "hd p = ''triage_input'' \<and> 2 \<le> i \<and> p ! (i - 1) = ''human_node''
    \<and> p ! (i - 2) \<in> set interrupt_nodes"
proof -
  have entry: "hd p = ''triage_input''"
    using assms(3) by (simp add: graph_entry)
  with assms(2) have first: "p ! 0 = ''triage_input''"
    by (simp add: hd_conv_nth)
  have "i \<noteq> 0"
  proof
    assume "i = 0"
    with first assms(5) show False
      by (simp add: sending_nodes_def)
  qed
  then obtain j where j: "i = Suc j"
    by (cases i) auto
  with assms(1,4) have "p ! Suc j \<in> set (successors build_memory_enhanced_graph (p ! j))"
    by (simp add: is_path_step)
  with assms(5) j have human: "p ! j = ''human_node''"
    by (simp add: sending_pred)
  have "j \<noteq> 0"
  proof
    assume "j = 0"
    with first human show False by simp
  qed
  then obtain k where k: "j = Suc k"
    by (cases j) auto
  with assms(1,4) j have "p ! Suc k \<in> set (successors build_memory_enhanced_graph (p ! k))"
    by (simp add: is_path_step)
  with human k have "p ! k \<in> set interrupt_nodes"
    by (simp add: human_pred)
  with entry human j k show ?thesis by simp
qed

theorem send_only_after_human_node_witness:
  "is_path build_memory_enhanced_graph
     [''triage_input'', ''draft_response'', ''rewrite'', ''send_email_draft'',
      ''human_node'', ''send_email_node'']
   \<and> entry_point build_memory_enhanced_graph = Some ''triage_input''
   \<and> [''triage_input'', ''draft_response'', ''rewrite'', ''send_email_draft'',
      ''human_node'', ''send_email_node''] ! 5 \<in> set sending_nodes
   \<and> [''triage_input'', ''draft_response'', ''rewrite'', ''send_email_draft'',
      ''human_node'', ''send_email_node''] ! 4 = ''human_node''
   \<and> [''triage_input'', ''draft_response'', ''rewrite'', ''send_email_draft'',
      ''human_node'', ''send_email_node''] ! 3 \<in> set interrupt_nodes"
  using send_only_after_human_node [of "[''triage_input'', ''draft_response'', ''rewrite'',
      ''send_email_draft'', ''human_node'', ''send_email_node'']" 5]
  by (simp add: successors_def graph_edges graph_branches graph_entry sending_nodes_def
      interrupt_nodes_def)

section \<open>Properties of the store and of the memory modules\<close>

lemma aput_calls: "calls (aput ns key v st) = calls st @ [APut ns key v]"
  by (simp add: aput_def)

lemma calls_since_append: "calls st' = calls st @ cs \<Longrightarrow> calls_since st st' = cs"
  by (simp add: calls_since_def)

lemma find_filter_other:
  assumes "\<And>x. P x \<Longrightarrow> \<not> Q x"
  shows "find P (filter (\<lambda>x. \<not> Q x) xs) = find P xs"
  using assms by (induction xs) auto

lemma find_filter_same: "find P (filter (\<lambda>x. \<not> P x) xs) = None"
  by (induction xs) auto

lemma find_append_if:
  "find P (xs @ ys) = (case find P xs of None \<Rightarrow> find P ys | Some x \<Rightarrow> Some x)"
  by (induction xs) auto

lemma find_aput_same:
  "find (at_key ns key) (items (aput ns key v st)) =
     Some \<lparr>item_namespace = ns, item_key = key, item_value = v\<rparr>"
proof -
  have "at_key ns key \<lparr>item_namespace = ns, item_key = key, item_value = v\<rparr>"
    by (simp add: at_key_def)
  then show ?thesis
    by (simp add: aput_def find_append_if find_filter_same)
qed

lemma find_aput_other:
  assumes "ns' \<noteq> ns \<or> key' \<noteq> key"
  shows "find (at_key ns key) (items (aput ns' key' v st)) = find (at_key ns key) (items st)"
proof -
  have "find (at_key ns key) (filter (\<lambda>it. \<not> at_key ns' key' it) (items st))
      = find (at_key ns key) (items st)"
    using assms by (intro find_filter_other) (auto simp: at_key_def)
  moreover have "\<not> at_key ns key \<lparr>item_namespace = ns', item_key = key', item_value = v\<rparr>"
    using assms by (auto simp: at_key_def)
  ultimately show ?thesis
    by (simp add: aput_def find_append_if split: option.splits)
qed

lemma asearch_length: "length (fst (asearch ns query limit st)) \<le> limit"
  by (simp add: asearch_def)

lemma store_contacts_raises:
  "store_contacts lib ns contacts st =
     (if contacts = [] then Inr () else Inl AttributeError, st)"
  by (cases contacts) (simp_all add: model_dump_json_def)


lemma store_preferences_raises:
  "store_preferences lib ns preferences st =
     (if preferences = [] then Inr () else Inl AttributeError, st)"
  by (cases preferences) (simp_all add: model_dump_json_def)


lemma store_memories_calls:
  "calls (store_memories lib ns n memories st) =
     calls st @ map (\<lambda>(i, memory). APut ns (lib_uuid4 lib i) [(''content'', JStr memory)])
       (enumerate n memories)"
  by (induction memories arbitrary: st n) (simp_all add: aput_calls)



text \<open>
  The course of \<^verbatim>\<open>process_email_for_memory\<close>: nothing is written when an extraction
  raises or the email has no subject; otherwise the summary is written, and then the
  first extracted contact or preference ends the function with AttributeError.
\<close>

lemma process_email_for_memory_unread:
  assumes "bind_err (lib_summary lib messages) (\<lambda>conversation_summary.
        bind_err (lib_contacts lib messages) (\<lambda>contacts.
        bind_err (lib_preferences lib messages) (\<lambda>preferences.
        bind_err (getitem (em_subject email_data)) (\<lambda>subject.
          Inr (conversation_summary, contacts, preferences, subject))))) = Inl e"
  shows "process_email_for_memory lib email_data messages config st = (Inl e, st)"
  using assms by (simp add: process_email_for_memory_def)

lemma process_email_for_memory_read:
  assumes "bind_err (lib_summary lib messages) (\<lambda>conversation_summary.
        bind_err (lib_contacts lib messages) (\<lambda>contacts.
        bind_err (lib_preferences lib messages) (\<lambda>preferences.
        bind_err (getitem (em_subject email_data)) (\<lambda>subject.
          Inr (conversation_summary, contacts, preferences, subject)))))
      = Inr (conversation_summary, contacts, preferences, subject)"
  shows "process_email_for_memory lib email_data messages config st =
     (let st1 = aput (get_memory_namespace config ''memories'') (lib_uuid4 lib 0)
                  [(''content'', JStr (summary_content subject conversation_summary))] st
      in if contacts \<noteq> [] \<or> preferences \<noteq> [] then (Inl AttributeError, st1)
         else (case bind_err (convert_to_langchain_messages messages) (lib_manager lib) of
                 Inl e \<Rightarrow> (Inl e, st1)
               | Inr memories \<Rightarrow>
                   (Inr (),
                    store_memories lib (get_memory_namespace config ''memories'') 1 memories
                      st1)))"
  using assms
  by (simp add: process_email_for_memory_def store_contacts_raises store_preferences_raises
      Let_def split: sum.splits)

lemma process_email_for_memory_memories_only:
  assumes "c \<in> set (calls_since st
             (snd (process_email_for_memory lib email_data messages config st)))"
  shows "\<exists>key v. c = APut (get_memory_namespace config ''memories'') key v"
proof (cases "bind_err (lib_summary lib messages) (\<lambda>conversation_summary.
        bind_err (lib_contacts lib messages) (\<lambda>contacts.
        bind_err (lib_preferences lib messages) (\<lambda>preferences.
        bind_err (getitem (em_subject email_data)) (\<lambda>subject.
          Inr (conversation_summary, contacts, preferences, subject)))))")
  case (Inl e)
  with assms show ?thesis
    by (simp add: process_email_for_memory_unread calls_since_def)
next
  case (Inr read)
  obtain conversation_summary contacts preferences subject
    where "read = (conversation_summary, contacts, preferences, subject)"
    by (cases read)
  with Inr assms show ?thesis
    by (auto simp: process_email_for_memory_read Let_def calls_since_def aput_calls
        store_memories_calls split: if_splits sum.splits)
qed


lemma append_lines_eq:
  "append_lines lib label found results = results @ map (content_line lib label) found"
  by (induction found arbitrary: results) simp_all

lemma retrieve_relevant_memories_fst:
  "fst (retrieve_relevant_memories lib query config st limit) =
     map (content_line lib ''Memory: '')
       (fst (asearch (get_memory_namespace config ''memories'') query limit st))
     @ map (content_line lib ''Contact: '')
       (fst (asearch (get_memory_namespace config ''contacts'') query limit st))
     @ map (content_line lib ''Preference: '')
       (fst (asearch (get_memory_namespace config ''preferences'') query limit st))"
  by (simp add: retrieve_relevant_memories_def Let_def append_lines_eq asearch_def
      split: prod.splits)

lemma retrieve_relevant_memories_calls:
  "calls (snd (retrieve_relevant_memories lib query config st limit)) =
     calls st @ [ASearch (get_memory_namespace config ''memories'') query limit,
                 ASearch (get_memory_namespace config ''contacts'') query limit,
                 ASearch (get_memory_namespace config ''preferences'') query limit]"
  by (simp add: retrieve_relevant_memories_def Let_def asearch_def split: prod.splits)

lemma get_memory_namespace_shape:
  "memory_namespace_shape config (get_memory_namespace config category)"
  by (simp add: memory_namespace_shape_def get_memory_namespace_def)

lemma process_email_for_memory_namespaces:
  assumes "c \<in> set (calls_since st
             (snd (process_email_for_memory lib email_data messages config st)))"
  shows "memory_namespace_shape config (call_namespace c)"
  using process_email_for_memory_memories_only [OF assms]
  by (auto simp: get_memory_namespace_shape)


lemma retrieve_relevant_memories_namespaces:
  assumes "c \<in> set (calls_since st (snd (retrieve_relevant_memories lib query config st limit)))"
  shows "memory_namespace_shape config (call_namespace c)"
  using assms
  by (auto simp: calls_since_def retrieve_relevant_memories_calls get_memory_namespace_shape)

lemma process_email_for_memory_simple_calls:
  "calls_since st (process_email_for_memory_simple email messages config st) =
     (case cfg_configurable config of
        None \<Rightarrow> []
      | Some configurable \<Rightarrow>
          [APut [get_default (cf_assistant_id configurable) ''default'', ''email_memory'']
             (get_default (em_id email) ''unknown'')
             [(''subject'', JStr (get_default (em_subject email) [])),
              (''from'', JStr (get_default (em_from_email email) [])),
              (''to'', JStr (get_default (em_to_email email) [])),
              (''content'', JStr (get_default (em_page_content email) [])),
              (''processed'', JBool True)]])"
  by (simp add: process_email_for_memory_simple_def process_email_for_memory_simple_body_def
      bind_err_def getitem_def except_return_def calls_since_def aput_calls Let_def
      split: option.splits)

lemma update_general_kept:
  assumes "find (at_key [rs_assistant_key state] (rs_prompt_key state)) (items st) = Some found"
    and "map_of (item_value found) ''data'' = Some current_prompt"
    and "\<not> update_prompt (get_output reflection_model (rs_messages state) current_prompt
          (rs_feedback state) (rs_instructions state))"
  shows "update_general reflection_model state st =
     (Inr (), st\<lparr>calls := calls st @ [AGet [rs_assistant_key state] (rs_prompt_key state)]\<rparr>)"
  using assms by (simp add: update_general_def aget_def Let_def)

lemma update_general_written:
  assumes "find (at_key [rs_assistant_key state] (rs_prompt_key state)) (items st) = Some found"
    and "map_of (item_value found) ''data'' = Some current_prompt"
    and "output = get_output reflection_model (rs_messages state) current_prompt
          (rs_feedback state) (rs_instructions state)"
    and "update_prompt output"
  shows "\<exists>rest. calls (snd (update_general reflection_model state st)) =
       calls st @ [AGet [rs_assistant_key state] (rs_prompt_key state),
         APut [rs_assistant_key state] (rs_prompt_key state)
           [(''data'', JStr (new_prompt output))]] @ rest
     \<and> (\<forall>c \<in> set rest. \<exists>key v.
           c = APut [rs_assistant_key state, ''memories'', ''system_prompts''] key v)"
    and "find (at_key [rs_assistant_key state] (rs_prompt_key state))
       (items (snd (update_general reflection_model state st))) =
       Some \<lparr>item_namespace = [rs_assistant_key state], item_key = rs_prompt_key state,
             item_value = [(''data'', JStr (new_prompt output))]\<rparr>"
  using assms
  by (cases "rs_feedback state";
      simp add: update_general_def aget_def Let_def aput_calls find_aput_same find_aput_other)+

lemma update_general_namespaces:
  assumes "c \<in> set (calls_since st (snd (update_general reflection_model state st)))"
  shows "call_namespace c = [rs_assistant_key state]
    \<or> call_namespace c = [rs_assistant_key state, ''memories'', ''system_prompts'']"
  using assms
  by (auto simp: update_general_def aget_def Let_def aput_calls calls_since_def
      split: option.splits if_splits)

text \<open>
  Claim C4: \<^verbatim>\<open>update_general\<close> writes a new prompt under the namespace
  \<^verbatim>\<open>(assistant_key,)\<close> and the key \<^verbatim>\<open>prompt_key\<close> if and only if the output of the
  reflection model has \<^verbatim>\<open>update_prompt\<close> set. When it is set, the stored prompt becomes
  the new prompt; when it is not, the function returns with the items of the store
  unchanged and without any write, so without a \<^verbatim>\<open>system_prompts\<close> memory entry. The
  model has an output when the stored prompt can be read, which the hypotheses say.
\<close>

theorem update_general_writes_iff:
  assumes "find (at_key [rs_assistant_key state] (rs_prompt_key state)) (items st) = Some found"
    and "map_of (item_value found) ''data'' = Some current_prompt"
    and "output = get_output reflection_model (rs_messages state) current_prompt
          (rs_feedback state) (rs_instructions state)"
  shows "(APut [rs_assistant_key state] (rs_prompt_key state)
            [(''data'', JStr (new_prompt output))]
          \<in> set (calls_since st (snd (update_general reflection_model state st)))
          \<longleftrightarrow> update_prompt output)
    \<and> (update_prompt output \<longrightarrow>
          find (at_key [rs_assistant_key state] (rs_prompt_key state))
            (items (snd (update_general reflection_model state st))) =
          Some \<lparr>item_namespace = [rs_assistant_key state], item_key = rs_prompt_key state,
                item_value = [(''data'', JStr (new_prompt output))]\<rparr>)
    \<and> (\<not> update_prompt output \<longrightarrow>
          fst (update_general reflection_model state st) = Inr ()
          \<and> items (snd (update_general reflection_model state st)) = items st
          \<and> filter is_put (calls_since st (snd (update_general reflection_model state st))) = [])"
proof (cases "update_prompt output")
  case True
  from update_general_written(1) [OF assms True]
  obtain rest where "calls (snd (update_general reflection_model state st)) =
       calls st @ [AGet [rs_assistant_key state] (rs_prompt_key state),
         APut [rs_assistant_key state] (rs_prompt_key state)
           [(''data'', JStr (new_prompt output))]] @ rest"
    by blast
  then have "APut [rs_assistant_key state] (rs_prompt_key state)
            [(''data'', JStr (new_prompt output))]
          \<in> set (calls_since st (snd (update_general reflection_model state st)))"
    by (simp add: calls_since_def)
  with True update_general_written(2) [OF assms True] show ?thesis
    by simp
next
  case False
  with assms have "update_general reflection_model state st =
     (Inr (), st\<lparr>calls := calls st @ [AGet [rs_assistant_key state] (rs_prompt_key state)]\<rparr>)"
    by (simp add: update_general_kept)
  with False show ?thesis
    by (simp add: calls_since_def)
qed

theorem update_general_writes_iff_witness:
  "find (at_key [''default''] ''rewrite_instructions'') (items example_prompt_store) =
     Some \<lparr>item_namespace = [''default''], item_key = ''rewrite_instructions'',
           item_value = [(''data'', JStr ''Write politely.'')]\<rparr>
   \<and> APut [''default''] ''rewrite_instructions'' [(''data'', JStr ''Be brief.'')]
       \<in> set (calls_since example_prompt_store
             (snd (update_general example_reflection_model example_reflection_state
                    example_prompt_store)))
   \<and> find (at_key [''default''] ''rewrite_instructions'')
       (items (snd (update_general example_reflection_model example_reflection_state
                     example_prompt_store))) =
     Some \<lparr>item_namespace = [''default''], item_key = ''rewrite_instructions'',
           item_value = [(''data'', JStr ''Be brief.'')]\<rparr>"
  using update_general_writes_iff
    [of example_reflection_state example_prompt_store
        "\<lparr>item_namespace = [''default''], item_key = ''rewrite_instructions'',
          item_value = [(''data'', JStr ''Write politely.'')]\<rparr>"
        "JStr ''Write politely.''"
        "example_reflection_model
           \<lparr>rp_current_prompt = JStr ''Write politely.'', rp_trajectory = [],
            rp_feedback = Some ''Too long'', rp_instructions = ''Only update the tone''\<rparr>"
        example_reflection_model]
  by (simp add: example_reflection_state_def example_prompt_store_def
      example_reflection_model_def get_output_def at_key_def)

text \<open>
  Claim C5, as stated: every \<^verbatim>\<open>aput\<close> and \<^verbatim>\<open>asearch\<close> that stores or retrieves extracted
  facts, email memories among them, uses a namespace \<^verbatim>\<open>(assistant id, category, user id)\<close>.
  The function \<^verbatim>\<open>process_email_for_memory\<close> of \<^verbatim>\<open>eaia/memory.py\<close> stores its email
  memory under the pair \<^verbatim>\<open>(assistant_id, "email_memory")\<close>, which has no user id.
\<close>

theorem email_memory_namespace_counterexample:
  "calls_since example_store
     (process_email_for_memory_simple example_email [] example_config example_store)
     = [APut [''default'', ''email_memory''] ''m1''
          [(''subject'', JStr ''Lunch''), (''from'', JStr ''ann@example.com''),
           (''to'', JStr ''bob@example.com''), (''content'', JStr ''Are you free at noon?''),
           (''processed'', JBool True)]]
   \<and> \<not> memory_namespace_shape example_config [''default'', ''email_memory'']"
  by (simp add: process_email_for_memory_simple_calls example_config_def example_email_def
      no_configurable_def get_default_def memory_namespace_shape_def)

text \<open>
  Claim C5, amended: \<^verbatim>\<open>get_memory_namespace\<close> always returns the triple
  \<^verbatim>\<open>(assistant id, category, user id)\<close>, with the defaults \<^verbatim>\<open>default\<close> and
  \<^verbatim>\<open>default_user\<close>, and every store call of \<^verbatim>\<open>process_email_for_memory\<close> of
  \<^verbatim>\<open>eaia/memory-module.py\<close> and of \<^verbatim>\<open>retrieve_relevant_memories\<close> uses a namespace of
  that shape. The email memory of \<^verbatim>\<open>eaia/memory.py\<close> is stored under the pair
  \<^verbatim>\<open>(assistant_id, "email_memory")\<close>, and \<^verbatim>\<open>update_general\<close> uses \<^verbatim>\<open>(assistant_key,)\<close>
  for the prompt and \<^verbatim>\<open>(assistant_key, "memories", "system_prompts")\<close> for the memory of
  the updated prompt.
\<close>

theorem memory_namespaces:
  "get_memory_namespace config category =
     [get_default (cf_assistant_id (get_default (cfg_configurable config) no_configurable))
        ''default'',
      category,
      get_default (cf_user_id (get_default (cfg_configurable config) no_configurable))
        ''default_user'']
   \<and> memory_namespace_shape config (get_memory_namespace config category)
   \<and> (\<forall>c \<in> set (calls_since st
              (snd (process_email_for_memory lib email_data messages config st))).
         memory_namespace_shape config (call_namespace c))
   \<and> (\<forall>c \<in> set (calls_since st (snd (retrieve_relevant_memories lib query config st n))).
         memory_namespace_shape config (call_namespace c))
   \<and> (\<forall>c \<in> set (calls_since st (process_email_for_memory_simple email_data messages config st)).
         \<exists>assistant_id. call_namespace c = [assistant_id, ''email_memory''])
   \<and> (\<forall>c \<in> set (calls_since st (snd (update_general reflection_model state st))).
         call_namespace c = [rs_assistant_key state]
         \<or> call_namespace c = [rs_assistant_key state, ''memories'', ''system_prompts''])"
proof -
  have "\<forall>c \<in> set (calls_since st (process_email_for_memory_simple email_data messages config st)).
         \<exists>assistant_id. call_namespace c = [assistant_id, ''email_memory'']"
    by (auto simp: process_email_for_memory_simple_calls split: option.splits)
  then show ?thesis
    using process_email_for_memory_namespaces retrieve_relevant_memories_namespaces
      update_general_namespaces get_memory_namespace_shape
    by (simp add: get_memory_namespace_def)
qed

theorem memory_namespaces_witness:
  "map call_namespace
     (calls_since example_store
        (snd (retrieve_relevant_memories example_library ''lunch'' example_config
               example_store 5)))
     = [[''default'', ''memories'', ''default_user''],
        [''default'', ''contacts'', ''default_user''],
        [''default'', ''preferences'', ''default_user'']]
   \<and> list_all (\<lambda>c. memory_namespace_shape example_config (call_namespace c))
       (calls_since example_store
          (snd (retrieve_relevant_memories example_library ''lunch'' example_config
                 example_store 5)))
   \<and> list_all (\<lambda>c. memory_namespace_shape example_config (call_namespace c))
       (calls_since example_store
          (snd (process_email_for_memory example_library example_email [] example_config
                 example_store)))"
  using memory_namespaces
    [of example_config "''memories''" example_store example_library example_email "[]"
        "''lunch''" 5]
  by (simp add: calls_since_def list_all_iff retrieve_relevant_memories_calls
      example_store_def example_config_def get_memory_namespace_def get_default_def
      no_configurable_def)


text \<open>
  No contact and no preference is ever stored: every write of
  \<^verbatim>\<open>process_email_for_memory\<close> goes to the memories namespace.
\<close>

lemma process_email_for_memory_stores_no_contact:
  "\<forall>c \<in> set (calls_since st
       (snd (process_email_for_memory lib email_data messages config st))).
     call_namespace c = get_memory_namespace config ''memories''"
  using process_email_for_memory_memories_only by fastforce

text \<open>
  Claim C7: for every email exchange it processes, \<^verbatim>\<open>process_email_for_memory\<close> stores
  one conversation summary, one record per extracted contact and one record per
  extracted preference. The code departs from it as soon as a contact or a preference
  is extracted. In the exchange below the extractions return a summary, the contact
  \<^verbatim>\<open>Ann Lee\<close> and the preference \<^verbatim>\<open>Meeting Time\<close>: the summary is written, then
  \<^verbatim>\<open>contact.model_dump_json()\<close> raises AttributeError, and neither the contact nor the
  preference is stored. When an extraction itself raises, nothing is stored at all.
\<close>

theorem process_email_for_memory_loses_contact:
  "lib_contacts example_library [] = Inr [example_contact]
   \<and> lib_preferences example_library [] = Inr [example_preference]
   \<and> fst (process_email_for_memory example_library example_email [] example_config
            example_store) = Inl AttributeError
   \<and> calls_since example_store
       (snd (process_email_for_memory example_library example_email [] example_config
              example_store))
     = [APut [''default'', ''memories'', ''default_user''] ''uuid''
          [(''content'',
            JStr (summary_content ''Lunch''
              \<lparr>cs_subject = ''Lunch'', cs_participants = [''ann@example.com''],
               cs_key_points = [''noon''], cs_action_items = None,
               cs_follow_up_needed = False\<rparr>))]]
   \<and> process_email_for_memory example_raising_library example_email [] example_config
       example_store = (Inl TypeError, example_store)"
proof -
  have unread: "process_email_for_memory example_raising_library example_email []
       example_config example_store = (Inl TypeError, example_store)"
    by (rule process_email_for_memory_unread)
      (simp add: example_raising_library_def bind_err_def)
  have read: "bind_err (lib_summary example_library []) (\<lambda>conversation_summary.
        bind_err (lib_contacts example_library []) (\<lambda>contacts.
        bind_err (lib_preferences example_library []) (\<lambda>preferences.
        bind_err (getitem (em_subject example_email)) (\<lambda>subject.
          Inr (conversation_summary, contacts, preferences, subject)))))
      = Inr (\<lparr>cs_subject = ''Lunch'', cs_participants = [''ann@example.com''],
               cs_key_points = [''noon''], cs_action_items = None,
               cs_follow_up_needed = False\<rparr>,
             [example_contact], [example_preference], ''Lunch'')"
    by (simp add: example_library_def example_email_def bind_err_def getitem_def)
  show ?thesis
    unfolding process_email_for_memory_read [OF read] unread
    by (simp add: example_library_def example_config_def example_store_def calls_since_def
        aput_calls get_memory_namespace_def get_default_def no_configurable_def)
qed

text \<open>
  Claim C8: for every query and limit \<open>n\<close>, \<^verbatim>\<open>retrieve_relevant_memories\<close> returns the
  results of the memories, contacts and preferences searches in this order, each entry
  prefixed by \<^verbatim>\<open>Memory: \<close>, \<^verbatim>\<open>Contact: \<close> or \<^verbatim>\<open>Preference: \<close>; each search gives at
  most \<open>n\<close> entries, so the result has at most \<open>3 * n\<close>, and it can have more than \<open>n\<close>.
\<close>

theorem retrieve_relevant_memories_bound:
  "fst (retrieve_relevant_memories lib query config st n) =
     map (\<lambda>found. ''Memory: ''
            @ py_str lib (get_default (map_of (item_value found) ''content'') (JStr [])))
       (fst (asearch (get_memory_namespace config ''memories'') query n st))
     @ map (\<lambda>found. ''Contact: ''
            @ py_str lib (get_default (map_of (item_value found) ''content'') (JStr [])))
       (fst (asearch (get_memory_namespace config ''contacts'') query n st))
     @ map (\<lambda>found. ''Preference: ''
            @ py_str lib (get_default (map_of (item_value found) ''content'') (JStr [])))
       (fst (asearch (get_memory_namespace config ''preferences'') query n st))
   \<and> length (fst (asearch (get_memory_namespace config ''memories'') query n st)) \<le> n
   \<and> length (fst (asearch (get_memory_namespace config ''contacts'') query n st)) \<le> n
   \<and> length (fst (asearch (get_memory_namespace config ''preferences'') query n st)) \<le> n
   \<and> length (fst (retrieve_relevant_memories lib query config st n)) \<le> 3 * n
   \<and> (\<exists>st' n'. n' < length (fst (retrieve_relevant_memories lib query config st' n')))"
proof -
  let ?m = "fst (asearch (get_memory_namespace config ''memories'') query n st)"
  let ?c = "fst (asearch (get_memory_namespace config ''contacts'') query n st)"
  let ?p = "fst (asearch (get_memory_namespace config ''preferences'') query n st)"
  have eq: "fst (retrieve_relevant_memories lib query config st n) =
      map (content_line lib ''Memory: '') ?m @ map (content_line lib ''Contact: '') ?c
      @ map (content_line lib ''Preference: '') ?p"
    by (rule retrieve_relevant_memories_fst)
  have m: "length ?m \<le> n" and c: "length ?c \<le> n" and p: "length ?p \<le> n"
    by (rule asearch_length)+
  have total: "length (fst (retrieve_relevant_memories lib query config st n)) \<le> 3 * n"
    using m c p by (simp add: eq)
  let ?item = "\<lambda>category. \<lparr>item_namespace = get_memory_namespace config category,
      item_key = ''k'', item_value = [(''content'', JStr ''fact'')]\<rparr>"
  let ?st = "\<lparr>items = [?item ''memories'', ?item ''contacts'', ?item ''preferences''],
      ranking = (\<lambda>query found. found), calls = []\<rparr>"
  have "length (fst (retrieve_relevant_memories lib query config ?st 1)) = 3"
    by (simp add: retrieve_relevant_memories_fst asearch_def below_def get_memory_namespace_def)
  then have "1 < length (fst (retrieve_relevant_memories lib query config ?st 1))"
    by simp
  then have ex: "\<exists>st' n'. n' < length (fst (retrieve_relevant_memories lib query config st' n'))"
    by blast
  from eq m c p total ex show ?thesis
    by (simp add: content_line_def)
qed

section \<open>Properties of \<^verbatim>\<open>send_message\<close>\<close>

lemmas example_defs =
  example_library_def example_environment_def example_state_def example_config_def
  example_store_def example_email_def example_message_def example_yaml_def
  example_contact_def example_preference_def no_configurable_def

lemmas send_message_eval =
  send_message_def Let_def get_config_def bind_err_def getitem_def last_item_def
  first_item_def get_default_def generate_email_markdown_def save_email_def aget_def
  aput_def at_key_def args_content_def args_str_def empty_tool_call_def
  process_email_for_memory_simple_def process_email_for_memory_simple_body_def
  except_return_def

lemma save_email_ok:
  assumes "cfg_configurable config = Some configurable"
    and "st_email s = Some email" and "em_id email = Some key"
  shows "\<exists>st1. save_email lib s config st status = (Inr (), st1)"
  using assms
  by (simp add: save_email_def bind_err_def getitem_def aget_def Let_def)

lemma send_message_unhandled:
  assumes "\<And>request. hr_type (env_interrupt env request) \<noteq> ''response''"
    and "\<And>request. hr_type (env_interrupt env request) \<noteq> ''ignore''"
  shows "\<exists>e. fst (send_message lib env s config st) = Inl e"
  using assms
  by (simp add: send_message_def Let_def split: sum.splits prod.splits)

text \<open>
  With a state and a configuration that let the node reach the interrupt, its result
  is decided by the human's response to the one request it makes, which offers to
  ignore and to respond only.
\<close>

lemma send_message_reaches_interrupt:
  assumes "yc_name (env_yaml env) = Some user"
    and "st_messages s = Some messages" and "messages \<noteq> []"
    and "msg_class (last messages) = DictMessage \<longrightarrow> msg_tool_calls (last messages) \<noteq> Some []"
    and "st_email s = Some email"
    and "em_id email = Some ident" and "em_subject email = Some subject"
    and "em_from_email email = Some from_email" and "em_to_email email = Some to_email"
    and "em_page_content email = Some page_content"
    and "cfg_configurable config = Some configurable"
  shows "\<exists>request. hi_config request = offers_ignore_and_respond
    \<and> (hr_type (env_interrupt env request) \<in> set [''response'', ''ignore'']
          \<longrightarrow> (\<exists>msg. fst (send_message lib env s config st) = Inr [msg]))
    \<and> (hr_type (env_interrupt env request) \<notin> set [''response'', ''ignore'']
          \<longrightarrow> send_message lib env s config st = (Inl ValueError, st, []))"
proof -
  have "\<exists>tool_call.
     (if msg_class (last messages) = DictMessage
      then first_item (get_default (msg_tool_calls (last messages)) [empty_tool_call])
      else (let tool_calls = get_default (msg_tool_calls (last messages)) [empty_tool_call]
            in Inr (if tool_calls \<noteq> [] then hd tool_calls else empty_tool_call)))
     = Inr tool_call"
    using assms(4)
    by (auto simp: first_item_def get_default_def Let_def split: list.splits option.splits)
  then obtain tool_call where tc:
    "(if msg_class (last messages) = DictMessage
      then first_item (get_default (msg_tool_calls (last messages)) [empty_tool_call])
      else (let tool_calls = get_default (msg_tool_calls (last messages)) [empty_tool_call]
            in Inr (if tool_calls \<noteq> [] then hd tool_calls else empty_tool_call)))
     = Inr tool_call"
    by blast
  obtain description where d: "generate_email_markdown s = Inr description"
    using assms(5-10)
    by (simp add: generate_email_markdown_def bind_err_def getitem_def)
  have save: "\<And>status. \<exists>st1. save_email lib s config st status = (Inr (), st1)"
    using save_email_ok [OF assms(11) assms(5) assms(6)] by blast
  let ?request = "\<lparr>hi_action_request =
             \<lparr>ar_action = get_default (tc_name tool_call) [],
              ar_args = get_default (tc_args tool_call) []\<rparr>,
           hi_config =
             \<lparr>allow_ignore = True, allow_respond = True, allow_edit = False,
              allow_accept = False\<rparr>,
           hi_description = Some description\<rparr>"
  have offered: "hi_config ?request = offers_ignore_and_respond"
    by (simp add: offers_ignore_and_respond_def)
  have responded: "\<exists>msg. fst (send_message lib env s config st) = Inr [msg]"
    if "hr_type (env_interrupt env ?request) = ''response''"
    using that save [of "''email''"] assms(1-3,5-11) tc d
    by (auto simp: send_message_def Let_def get_config_def bind_err_def getitem_def
        last_item_def)
  have ignored: "\<exists>msg. fst (send_message lib env s config st) = Inr [msg]"
    if "hr_type (env_interrupt env ?request) = ''ignore''"
    using that save [of "''no''"] assms(1-3,5-11) tc d
    by (auto simp: send_message_def Let_def get_config_def bind_err_def getitem_def
        last_item_def)
  have other: "send_message lib env s config st = (Inl ValueError, st, [])"
    if "hr_type (env_interrupt env ?request) \<noteq> ''response''"
      and "hr_type (env_interrupt env ?request) \<noteq> ''ignore''"
    using that assms(1-3,5-11) tc d
    by (simp add: send_message_def Let_def get_config_def bind_err_def getitem_def
        last_item_def)
  show ?thesis
  proof (rule exI [of _ ?request], intro conjI impI)
    show "hi_config ?request = offers_ignore_and_respond"
      by (rule offered)
  next
    assume "hr_type (env_interrupt env ?request) \<in> set [''response'', ''ignore'']"
    then consider "hr_type (env_interrupt env ?request) = ''response''"
      | "hr_type (env_interrupt env ?request) = ''ignore''"
      by auto
    then show "\<exists>msg. fst (send_message lib env s config st) = Inr [msg]"
    proof cases
      case 1
      then show ?thesis by (rule responded)
    next
      case 2
      then show ?thesis by (rule ignored)
    qed
  next
    assume "hr_type (env_interrupt env ?request) \<notin> set [''response'', ''ignore'']"
    then have "hr_type (env_interrupt env ?request) \<noteq> ''response''"
      and "hr_type (env_interrupt env ?request) \<noteq> ''ignore''"
      by auto
    then show "send_message lib env s config st = (Inl ValueError, st, [])"
      by (rule other)
  qed
qed

text \<open>
  Claim C6, as stated: upon resumption \<^verbatim>\<open>send_message\<close> handles a response of type
  accept, edit or ignore, and a free-text response, without raising. A response of type
  \<^verbatim>\<open>accept\<close> or \<^verbatim>\<open>edit\<close> makes it raise ValueError: the node offers the human only
  \<^verbatim>\<open>ignore\<close> and \<^verbatim>\<open>respond\<close>, and has branches only for these two.
\<close>

theorem send_message_accept_counterexample:
  "fst (send_message example_library
         (example_environment \<lparr>hr_type = ''accept'', hr_args = NoArgs\<rparr> example_message)
         example_state example_config example_store) = Inl ValueError
   \<and> fst (send_message example_library
         (example_environment
            \<lparr>hr_type = ''edit'',
             hr_args = ActionArgs \<lparr>ar_action = ''Question'',
                                   ar_args = [(''content'', JStr ''Which week?'')]\<rparr>\<rparr>
            example_message)
         example_state example_config example_store) = Inl ValueError"
  by (simp add: send_message_eval example_defs)

text \<open>
  Claim C6, amended. Let the configuration file name the user, the state have a last
  message (whose \<^verbatim>\<open>tool_calls\<close>, if the message is a dictionary, is not the empty list)
  and an email with its identifier, subject, sender, recipient and content, and the run
  configuration have its \<^verbatim>\<open>configurable\<close> part. Then \<^verbatim>\<open>send_message\<close> suspends with
  a request that offers the human to ignore and to respond and neither to edit nor to
  accept; when the response to that request has the type \<^verbatim>\<open>response\<close> (free text)
  or \<^verbatim>\<open>ignore\<close>, the node returns one message without raising; when it has any other
  type, \<^verbatim>\<open>accept\<close> and \<^verbatim>\<open>edit\<close> among them, the node raises ValueError, producing no
  state update, no change of the store and no reflection run. Without the provisos, a
  response of a type other than \<^verbatim>\<open>response\<close> and \<^verbatim>\<open>ignore\<close> still gives no state
  update: the node raises.
\<close>

theorem send_message_responses:
  "(yc_name (env_yaml env) = Some user
      \<and> st_messages s = Some messages \<and> messages \<noteq> []
      \<and> (msg_class (last messages) = DictMessage
            \<longrightarrow> msg_tool_calls (last messages) \<noteq> Some [])
      \<and> st_email s = Some email
      \<and> em_id email = Some ident \<and> em_subject email = Some subject
      \<and> em_from_email email = Some from_email \<and> em_to_email email = Some to_email
      \<and> em_page_content email = Some page_content
      \<and> cfg_configurable config = Some configurable
      \<longrightarrow>
        (\<exists>request. hi_config request = offers_ignore_and_respond
           \<and> (hr_type (env_interrupt env request) \<in> set [''response'', ''ignore'']
                \<longrightarrow> (\<exists>msg. fst (send_message lib env s config st) = Inr [msg]))
           \<and> (hr_type (env_interrupt env request) \<notin> set [''response'', ''ignore'']
                \<longrightarrow> send_message lib env s config st = (Inl ValueError, st, []))))
   \<and> ((\<forall>request. hr_type (env_interrupt env request) \<notin> set [''response'', ''ignore''])
      \<longrightarrow> (\<exists>e. fst (send_message lib env s config st) = Inl e))"
proof (intro conjI impI)
  assume "\<forall>request. hr_type (env_interrupt env request) \<notin> set [''response'', ''ignore'']"
  then show "\<exists>e. fst (send_message lib env s config st) = Inl e"
    by (intro send_message_unhandled) simp_all
next
  assume a: "yc_name (env_yaml env) = Some user
      \<and> st_messages s = Some messages \<and> messages \<noteq> []
      \<and> (msg_class (last messages) = DictMessage
            \<longrightarrow> msg_tool_calls (last messages) \<noteq> Some [])
      \<and> st_email s = Some email
      \<and> em_id email = Some ident \<and> em_subject email = Some subject
      \<and> em_from_email email = Some from_email \<and> em_to_email email = Some to_email
      \<and> em_page_content email = Some page_content
      \<and> cfg_configurable config = Some configurable"
  show "\<exists>request. hi_config request = offers_ignore_and_respond
           \<and> (hr_type (env_interrupt env request) \<in> set [''response'', ''ignore'']
                \<longrightarrow> (\<exists>msg. fst (send_message lib env s config st) = Inr [msg]))
           \<and> (hr_type (env_interrupt env request) \<notin> set [''response'', ''ignore'']
                \<longrightarrow> send_message lib env s config st = (Inl ValueError, st, []))"
    by (rule send_message_reaches_interrupt [where user = user and messages = messages
          and email = email and ident = ident and subject = subject
          and from_email = from_email and to_email = to_email
          and page_content = page_content and configurable = configurable])
      (use a in simp_all)
qed

theorem send_message_responses_witness:
  "yc_name example_yaml = Some ''Ann''
   \<and> st_messages example_state = Some [example_message]
   \<and> st_email example_state = Some example_email
   \<and> cfg_configurable example_config = Some no_configurable
   \<and> (\<exists>msg. fst (send_message example_library
         (example_environment \<lparr>hr_type = ''response'', hr_args = TextArgs ''Friday''\<rparr>
            example_message)
         example_state example_config example_store) = Inr [msg])
   \<and> send_message example_library
         (example_environment \<lparr>hr_type = ''accept'', hr_args = NoArgs\<rparr> example_message)
         example_state example_config example_store
     = (Inl ValueError, example_store, [])"
proof -
  let ?respond = "example_environment \<lparr>hr_type = ''response'', hr_args = TextArgs ''Friday''\<rparr>
      example_message"
  let ?accept = "example_environment \<lparr>hr_type = ''accept'', hr_args = NoArgs\<rparr> example_message"
  have state: "yc_name example_yaml = Some ''Ann''"
    "st_messages example_state = Some [example_message]"
    "st_email example_state = Some example_email"
    "cfg_configurable example_config = Some no_configurable"
    by (simp_all add: example_yaml_def example_state_def example_config_def)
  have email: "em_id example_email = Some ''m1''" "em_subject example_email = Some ''Lunch''"
    "em_from_email example_email = Some ''ann@example.com''"
    "em_to_email example_email = Some ''bob@example.com''"
    "em_page_content example_email = Some ''Are you free at noon?''"
    by (simp_all add: example_email_def)
  have object: "msg_class (last [example_message]) \<noteq> DictMessage"
    by (simp add: example_message_def)
  have yaml: "env_yaml ?respond = example_yaml" "env_yaml ?accept = example_yaml"
    by (simp_all add: example_environment_def)
  have answers: "hr_type (env_interrupt ?respond request) = ''response''"
    "hr_type (env_interrupt ?accept request) = ''accept''" for request
    by (simp_all add: example_environment_def)
  from send_message_responses
    [of ?respond "''Ann''" example_state "[example_message]" example_email "''m1''" "''Lunch''"
        "''ann@example.com''" "''bob@example.com''" "''Are you free at noon?''"
        example_config no_configurable example_library example_store]
  have responded: "\<exists>msg. fst (send_message example_library ?respond example_state
      example_config example_store) = Inr [msg]"
    unfolding yaml answers using state email object by simp
  from send_message_responses
    [of ?accept "''Ann''" example_state "[example_message]" example_email "''m1''" "''Lunch''"
        "''ann@example.com''" "''bob@example.com''" "''Are you free at noon?''"
        example_config no_configurable example_library example_store]
  have accepted: "send_message example_library ?accept example_state example_config
      example_store = (Inl ValueError, example_store, [])"
    unfolding yaml answers using state email object by simp
  from state responded accepted show ?thesis
    by blast
qed

section \<open>Properties of \<^verbatim>\<open>draft_response\<close>\<close>

declare draft_loop.simps [simp del]

lemma draft_loop_length:
  "length (snd (draft_loop model i messages r)) \<le> 5 - i"
proof (induction model i messages r rule: draft_loop.induct)
  case (1 model i messages r)
  show ?case
  proof (cases "i < 5")
    case False
    then show ?thesis
      by (simp add: draft_loop.simps [of model i])
  next
    case True
    show ?thesis
    proof (cases "bind_err (model messages) (\<lambda>reply.
                bind_err (attr_tool_calls reply) (\<lambda>tool_calls. Inr (reply, tool_calls)))")
      case (Inl e)
      with True show ?thesis
        by (simp add: draft_loop.simps [of model i])
    next
      case (Inr p)
      obtain reply tool_calls where p: "p = (reply, tool_calls)"
        by (cases p)
      show ?thesis
      proof (cases "length tool_calls \<noteq> 1")
        case False
        with True Inr p show ?thesis
          by (simp add: draft_loop.simps [of model i])
      next
        case retry: True
        from "1.IH" [OF True Inr p [symmetric] retry] True Inr p retry show ?thesis
          by (simp add: draft_loop.simps [of model i messages])
      qed
    qed
  qed
qed

lemma draft_loop_retries:
  "Suc k < length (snd (draft_loop model i messages r)) \<Longrightarrow>
     lacks_single_tool_call (model (snd (draft_loop model i messages r) ! k))"
proof (induction model i messages r arbitrary: k rule: draft_loop.induct)
  case (1 model i messages r)
  show ?case
  proof (cases "i < 5")
    case False
    with "1.prems" show ?thesis
      by (simp add: draft_loop.simps [of model i])
  next
    case True
    show ?thesis
    proof (cases "bind_err (model messages) (\<lambda>reply.
                bind_err (attr_tool_calls reply) (\<lambda>tool_calls. Inr (reply, tool_calls)))")
      case (Inl e)
      with True "1.prems" show ?thesis
        by (simp add: draft_loop.simps [of model i])
    next
      case (Inr p)
      obtain reply tool_calls where p: "p = (reply, tool_calls)"
        by (cases p)
      from Inr p have reply: "model messages = Inr reply"
        and calls: "attr_tool_calls reply = Inr tool_calls"
        by (auto simp: bind_err_def split: sum.splits)
      show ?thesis
      proof (cases "length tool_calls \<noteq> 1")
        case False
        with True Inr p "1.prems" show ?thesis
          by (simp add: draft_loop.simps [of model i])
      next
        case retry: True
        let ?rest = "snd (draft_loop model (i + 1)
                       (messages @ [user_message ''Please call a valid tool call.''])
                       (Some reply))"
        have unfold: "snd (draft_loop model i messages r) = messages # ?rest"
          using True Inr p retry by (simp add: draft_loop.simps [of model i messages])
        show ?thesis
        proof (cases k)
          case 0
          with unfold reply calls retry show ?thesis
            by (simp add: lacks_single_tool_call_def)
        next
          case (Suc j)
          with "1.prems" unfold have "Suc j < length ?rest"
            by simp
          from "1.IH" [OF True Inr p [symmetric] retry this] Suc unfold show ?thesis
            by simp
        qed
      qed
    qed
  qed
qed

lemma draft_loop_done:
  "\<not> j < 5 \<Longrightarrow> draft_loop model j messages (Some reply) = (Inr reply, [])"
  by (subst draft_loop.simps) simp

lemma draft_loop_exhausted:
  "i < 5 \<Longrightarrow> length (snd (draft_loop model i messages r)) = 5 - i \<Longrightarrow>
     lacks_single_tool_call (model (last (snd (draft_loop model i messages r)))) \<Longrightarrow>
     \<exists>reply. model (last (snd (draft_loop model i messages r))) = Inr reply
       \<and> fst (draft_loop model i messages r) = Inr reply"
proof (induction model i messages r rule: draft_loop.induct)
  case (1 model i messages r)
  note i = \<open>i < 5\<close>
  show ?case
  proof (cases "bind_err (model messages) (\<lambda>reply.
              bind_err (attr_tool_calls reply) (\<lambda>tool_calls. Inr (reply, tool_calls)))")
    case (Inl e)
    with i have unfold: "draft_loop model i messages r = (Inl e, [messages])"
      by (simp add: draft_loop.simps [of model i])
    from Inl have "\<not> lacks_single_tool_call (model messages)"
      by (auto simp: lacks_single_tool_call_def bind_err_def split: sum.splits)
    with "1.prems"(3) unfold show ?thesis
      by simp
  next
    case (Inr p)
    obtain reply tool_calls where p: "p = (reply, tool_calls)"
      by (cases p)
    from Inr p have reply: "model messages = Inr reply"
      and calls: "attr_tool_calls reply = Inr tool_calls"
      by (auto simp: bind_err_def split: sum.splits)
    show ?thesis
    proof (cases "length tool_calls \<noteq> 1")
      case False
      with i Inr p have unfold: "draft_loop model i messages r = (Inr reply, [messages])"
        by (simp add: draft_loop.simps [of model i])
      from False reply calls have "\<not> lacks_single_tool_call (model messages)"
        by (simp add: lacks_single_tool_call_def)
      with "1.prems"(3) unfold show ?thesis
        by simp
    next
      case retry: True
      let ?next = "draft_loop model (i + 1)
                     (messages @ [user_message ''Please call a valid tool call.''])
                     (Some reply)"
      have unfold: "draft_loop model i messages r = apsnd ((#) messages) ?next"
        using i Inr p retry by (simp add: draft_loop.simps [of model i messages])
      show ?thesis
      proof (cases "i + 1 < 5")
        case False
        then have "?next = (Inr reply, [])"
          by (rule draft_loop_done)
        with unfold reply show ?thesis
          by simp
      next
        case True
        from "1.prems"(2) unfold have len: "length (snd ?next) = 5 - (i + 1)"
          by simp
        with True have "snd ?next \<noteq> []"
          by auto
        with unfold have last: "last (snd (draft_loop model i messages r)) = last (snd ?next)"
          by simp
        from "1.IH" [OF i Inr p [symmetric] retry True len] "1.prems"(3) last unfold
        show ?thesis
          by simp
      qed
    qed
  qed
qed

lemma draft_request_tools:
  assumes "draft_request lib env s config st = (Inr (tools, messages), st')"
  shows "tools = draft_tools config (get_default (st_messages s) [])"
  using assms
  by (auto simp: draft_request_def Let_def split: sum.splits prod.splits)

lemma draft_response_cases:
  "(\<exists>e st'. draft_request lib env s config st = (Inl e, st')
      \<and> snd (snd (draft_response lib env s config st)) = [])
   \<or> (\<exists>messages st'.
        draft_request lib env s config st
          = (Inr (draft_tools config (get_default (st_messages s) []), messages), st')
      \<and> snd (snd (draft_response lib env s config st))
          = snd (draft_loop (drafting_model env config s) 0 messages None)
      \<and> (\<forall>reply. fst (draft_loop (drafting_model env config s) 0 messages None) = Inr reply
            \<longrightarrow> fst (draft_response lib env s config st)
                  = \<lparr>dr_draft = reply, dr_messages = [reply]\<rparr>))"
proof (cases "draft_request lib env s config st")
  case (Pair outcome st')
  show ?thesis
  proof (cases outcome)
    case (Inl e)
    with Pair show ?thesis
      by (simp add: draft_response_def)
  next
    case (Inr p)
    obtain tools messages where p: "p = (tools, messages)"
      by (cases p)
    from Pair Inr p have tools: "tools = draft_tools config (get_default (st_messages s) [])"
      by (simp add: draft_request_tools)
    from Pair Inr p tools show ?thesis
      by (auto simp: draft_response_def drafting_model_def split: prod.splits sum.splits)
  qed
qed

lemma example_draft_request:
  "fst (draft_request example_library (example_environment example_answer example_reply)
          example_state example_config example_store)
     = Inr (draft_tools example_config [example_message],
            [user_message ''Lunch'', example_message])"
  by (simp add: draft_request_def example_defs bind_err_def getitem_def get_default_def
      Let_def retrieve_relevant_memories_def asearch_def stored_preference_def aget_def
      aput_def at_key_def get_config_def split: prod.splits)

lemma example_draft_loop:
  "draft_loop (\<lambda>messages. Inr example_reply) 0 messages None =
     (Inr example_reply,
      [messages,
       messages @ [user_message ''Please call a valid tool call.''],
       messages @ [user_message ''Please call a valid tool call.'',
                   user_message ''Please call a valid tool call.''],
       messages @ [user_message ''Please call a valid tool call.'',
                   user_message ''Please call a valid tool call.'',
                   user_message ''Please call a valid tool call.''],
       messages @ [user_message ''Please call a valid tool call.'',
                   user_message ''Please call a valid tool call.'',
                   user_message ''Please call a valid tool call.'',
                   user_message ''Please call a valid tool call.'']])"
  by (simp add: draft_loop.simps bind_err_def attr_tool_calls_def example_reply_def)

lemma example_draft_response:
  "draft_response example_library (example_environment example_answer example_reply)
     example_state example_config example_store
   = (\<lparr>dr_draft = example_reply, dr_messages = [example_reply]\<rparr>,
      snd (draft_request example_library (example_environment example_answer example_reply)
             example_state example_config example_store),
      snd (draft_loop (\<lambda>messages. Inr example_reply) 0
             [user_message ''Lunch'', example_message] None))"
proof -
  obtain outcome st' where r:
    "draft_request example_library (example_environment example_answer example_reply)
       example_state example_config example_store = (outcome, st')"
    by (cases "draft_request example_library (example_environment example_answer example_reply)
       example_state example_config example_store")
  with example_draft_request have "outcome = Inr (draft_tools example_config [example_message],
            [user_message ''Lunch'', example_message])"
    by simp
  with r show ?thesis
    by (simp add: draft_response_def example_draft_loop example_environment_def)
qed

text \<open>
  Claim C9: \<^verbatim>\<open>draft_response\<close> calls the language model at most five times. It asks
  again only after a response that does not contain exactly one tool call, so every
  request but the last was answered by such a response; and when the fifth request is
  answered by such a response too, it stops and returns that response as the draft and
  as the one new message, although the response does not contain exactly one tool call.
\<close>

theorem draft_response_at_most_five:
  "length (snd (snd (draft_response lib env s config st))) \<le> 5
   \<and> (\<forall>k. Suc k < length (snd (snd (draft_response lib env s config st))) \<longrightarrow>
         lacks_single_tool_call
           (drafting_model env config s (snd (snd (draft_response lib env s config st)) ! k)))
   \<and> (length (snd (snd (draft_response lib env s config st))) = 5
       \<and> lacks_single_tool_call
           (drafting_model env config s (snd (snd (draft_response lib env s config st)) ! 4))
       \<longrightarrow> drafting_model env config s (snd (snd (draft_response lib env s config st)) ! 4)
             = Inr (dr_draft (fst (draft_response lib env s config st)))
         \<and> dr_messages (fst (draft_response lib env s config st))
             = [dr_draft (fst (draft_response lib env s config st))])"
proof -
  let ?requests = "snd (snd (draft_response lib env s config st))"
  let ?model = "drafting_model env config s"
  from draft_response_cases [of lib env s config st] consider
    (failed) "?requests = []"
    | (looped) messages where
        "?requests = snd (draft_loop ?model 0 messages None)"
        "\<forall>reply. fst (draft_loop ?model 0 messages None) = Inr reply
            \<longrightarrow> fst (draft_response lib env s config st)
                  = \<lparr>dr_draft = reply, dr_messages = [reply]\<rparr>"
    by blast
  then show ?thesis
  proof cases
    case failed
    then show ?thesis by simp
  next
    case looped
    let ?loop = "draft_loop ?model 0 messages None"
    have len: "length ?requests \<le> 5"
      using draft_loop_length [of ?model 0 messages None] looped(1) by simp
    have retries: "\<forall>k. Suc k < length ?requests \<longrightarrow> lacks_single_tool_call (?model (?requests ! k))"
      using draft_loop_retries [of _ ?model 0 messages None] looped(1) by simp
    have final: "drafting_model env config s (?requests ! 4)
             = Inr (dr_draft (fst (draft_response lib env s config st)))
         \<and> dr_messages (fst (draft_response lib env s config st))
             = [dr_draft (fst (draft_response lib env s config st))]"
      if five: "length ?requests = 5" and lacks: "lacks_single_tool_call (?model (?requests ! 4))"
    proof -
      from five have "?requests \<noteq> []"
        by auto
      with five have at: "last ?requests = ?requests ! 4"
        by (simp add: last_conv_nth)
      have "\<exists>reply. ?model (last (snd ?loop)) = Inr reply \<and> fst ?loop = Inr reply"
        using five lacks at looped(1) by (intro draft_loop_exhausted) simp_all
      then obtain reply where "?model (last (snd ?loop)) = Inr reply" "fst ?loop = Inr reply"
        by blast
      with looped at show ?thesis
        by simp
    qed
    from len retries final show ?thesis
      by blast
  qed
qed

theorem draft_response_at_most_five_witness:
  "length (snd (snd (draft_response example_library
             (example_environment example_answer example_reply)
             example_state example_config example_store))) = 5
   \<and> lacks_single_tool_call (Inr example_reply)
   \<and> dr_draft (fst (draft_response example_library
             (example_environment example_answer example_reply)
             example_state example_config example_store)) = example_reply
   \<and> dr_messages (fst (draft_response example_library
             (example_environment example_answer example_reply)
             example_state example_config example_store)) = [example_reply]"
proof -
  let ?env = "example_environment example_answer example_reply"
  let ?run = "draft_response example_library ?env example_state example_config example_store"
  have requests: "length (snd (snd ?run)) = 5"
    by (simp add: example_draft_response example_draft_loop)
  have model: "drafting_model ?env example_config example_state messages = Inr example_reply"
    for messages
    by (simp add: drafting_model_def example_environment_def)
  have lacks: "lacks_single_tool_call (Inr example_reply)"
    by (simp add: lacks_single_tool_call_def attr_tool_calls_def example_reply_def)
  from draft_response_at_most_five
    [of example_library ?env example_state example_config example_store]
    requests model lacks
  show ?thesis
    by simp
qed

end
